theory Spec2Isabelle
  imports Complex_Main "HOL-Library.Log_Nat" "HOL-Library.Char_ord" "HOL-Library.List_Lexorder"
begin

section \<open>JavaScript values\<close>

text \<open>
  The editor's raw options are loosely typed JavaScript values, and the coercers of
  \<^verbatim>\<open>commonEditorConfig.ts\<close> are defined by what the language does with them, so the
  embedding starts with the values and the built-in operations the file calls.

  A \<open>number\<close> is a double: not-a-number, an infinity, or a finite value, carried as the
  rational it denotes (every finite double is a rational; \<open>-0\<close> and \<open>0\<close> are not told
  apart, as \<^verbatim>\<open>===\<close> does not tell them apart). Strings are lists of 8-bit code units.
  A function value carries its source text, which is what \<^verbatim>\<open>String(f)\<close> returns; an object
  is a plain object, given by its own properties in order.
\<close>

datatype number = NaN | NegInfinity | Fin rat | PosInfinity

datatype jsvalue =
    JSUndefined
  | JSNull
  | JSBoolean bool
  | JSNumber number
  | JSString string
  | JSArray "jsvalue list"
  | JSObject "(string \<times> jsvalue) list"
  | JSFunction string

datatype error = TypeError

text \<open>
  The parts of the program that are not in \<^verbatim>\<open>commonEditorConfig.ts\<close>, and the floating-point
  primitives of the language, are parameters of the embedding: every statement below
  holds for each value of them.
  \<^item> \<open>MIN_SAFE_SMALL_INTEGER\<close>, \<open>MAX_SAFE_SMALL_INTEGER\<close>: the constants of
    \<^verbatim>\<open>vs/editor/common/core/uint\<close> that \<open>toInteger\<close> takes as its default bounds;
  \<^item> \<open>minimap_enabled\<close>, \<open>minimap_renderCharacters\<close>, \<open>minimap_maxColumn\<close>: the fields of
    \<^verbatim>\<open>DefaultConfig.editor.minimap\<close>;
  \<^item> \<open>compute\<close>: \<^verbatim>\<open>EditorLayoutProvider.compute\<close>, the layout calculator;
  \<^item> \<open>parseFloat_string\<close>: \<^verbatim>\<open>parseFloat\<close> on a string; \<open>Number_toString\<close>: the decimal
    text of a number that is not an integer below \<open>10^21\<close> (the shortest digits that
    read back as the same double); \<open>number_times\<close> and \<open>number_plus\<close>: the rounded
    product and sum of two doubles.
\<close>

record ('i, 'l) externals =
  MIN_SAFE_SMALL_INTEGER :: number
  MAX_SAFE_SMALL_INTEGER :: number
  minimap_enabled :: bool
  minimap_renderCharacters :: bool
  minimap_maxColumn :: number
  compute :: "'i \<Rightarrow> 'l"
  parseFloat_string :: "string \<Rightarrow> number"
  Number_toString :: "rat \<Rightarrow> string"
  number_times :: "number \<Rightarrow> number \<Rightarrow> number"
  number_plus :: "number \<Rightarrow> number \<Rightarrow> number"

subsection \<open>Numbers\<close>

definition isNaN :: "number \<Rightarrow> bool" where
  "isNaN x = (x = NaN)"

text \<open>\<^verbatim>\<open>x < y\<close> on numbers: false as soon as one side is not a number.\<close>

fun number_less :: "number \<Rightarrow> number \<Rightarrow> bool" where
  "number_less NaN _ = False"
| "number_less _ NaN = False"
| "number_less _ NegInfinity = False"
| "number_less NegInfinity _ = True"
| "number_less PosInfinity _ = False"
| "number_less _ PosInfinity = True"
| "number_less (Fin a) (Fin b) = (a < b)"

definition Math_max :: "number \<Rightarrow> number \<Rightarrow> number" where
  "Math_max a b = (if isNaN a \<or> isNaN b then NaN else if number_less a b then b else a)"

definition Math_min :: "number \<Rightarrow> number \<Rightarrow> number" where
  "Math_min a b = (if isNaN a \<or> isNaN b then NaN else if number_less b a then b else a)"

text \<open>
  \<^verbatim>\<open>x | 0\<close> is the language's ToInt32: not-a-number and the infinities give 0; a finite
  value is truncated towards zero and wrapped into the signed 32-bit range.
\<close>

definition trunc :: "rat \<Rightarrow> int" where
  "trunc q = (if q < 0 then - \<lfloor>- q\<rfloor> else \<lfloor>q\<rfloor>)"

definition wrap32 :: "int \<Rightarrow> int" where
  "wrap32 i = (let m = i mod 2 ^ 32 in if 2 ^ 31 \<le> m then m - 2 ^ 32 else m)"

definition ToInt32 :: "number \<Rightarrow> int" where
  "ToInt32 x = (case x of Fin q \<Rightarrow> wrap32 (trunc q) | _ \<Rightarrow> 0)"

definition of_int32 :: "int \<Rightarrow> number" where
  "of_int32 i = Fin (of_int i)"

subsection \<open>Strings of values\<close>

fun digits10 :: "nat \<Rightarrow> string" where
  "digits10 n =
     (if n < 10 then [''0123456789'' ! n]
      else digits10 (n div 10) @ [''0123456789'' ! (n mod 10)])"

declare digits10.simps [simp del]

definition Integer_toString :: "int \<Rightarrow> string" where
  "Integer_toString i = (if i < 0 then CHR ''-'' # digits10 (nat (- i)) else digits10 (nat i))"

definition number_toString :: "('i, 'l) externals \<Rightarrow> number \<Rightarrow> string" where
  "number_toString ext x =
     (case x of
        NaN \<Rightarrow> ''NaN''
      | PosInfinity \<Rightarrow> ''Infinity''
      | NegInfinity \<Rightarrow> ''-Infinity''
      | Fin q \<Rightarrow>
          if q = of_int \<lfloor>q\<rfloor> \<and> \<bar>q\<bar> < 10 ^ 21 then Integer_toString \<lfloor>q\<rfloor>
          else Number_toString ext q)"

fun join :: "string list \<Rightarrow> string" where
  "join [] = []"
| "join [s] = s"
| "join (s # t) = s @ CHR '','' # join t"

text \<open>
  \<^verbatim>\<open>String(v)\<close>. An array is the texts of its elements joined by commas, \<^verbatim>\<open>undefined\<close> and
  \<^verbatim>\<open>null\<close> elements giving the empty text.
\<close>

fun ToString :: "('i, 'l) externals \<Rightarrow> jsvalue \<Rightarrow> string" where
  "ToString ext JSUndefined = ''undefined''"
| "ToString ext JSNull = ''null''"
| "ToString ext (JSBoolean b) = (if b then ''true'' else ''false'')"
| "ToString ext (JSNumber x) = number_toString ext x"
| "ToString ext (JSString s) = s"
| "ToString ext (JSArray vs) =
     join (map (\<lambda>v. if v = JSUndefined \<or> v = JSNull then [] else ToString ext v) vs)"
| "ToString ext (JSObject ps) = ''[object Object]''"
| "ToString ext (JSFunction src) = src"

text \<open>\<^verbatim>\<open>Boolean(v)\<close>.\<close>

fun ToBoolean :: "jsvalue \<Rightarrow> bool" where
  "ToBoolean JSUndefined = False"
| "ToBoolean JSNull = False"
| "ToBoolean (JSBoolean b) = b"
| "ToBoolean (JSNumber x) = (x \<noteq> NaN \<and> x \<noteq> Fin 0)"
| "ToBoolean (JSString s) = (s \<noteq> [])"
| "ToBoolean _ = True"

text \<open>
  Reading a property \<^verbatim>\<open>v.name\<close>: of \<^verbatim>\<open>undefined\<close> and \<^verbatim>\<open>null\<close> it throws a TypeError
  (\<open>nullish\<close>); of an object it is the property's value, \<^verbatim>\<open>undefined\<close> when absent; the
  other values have none of the properties this file reads.
\<close>

definition nullish :: "jsvalue \<Rightarrow> bool" where
  "nullish v = (v = JSUndefined \<or> v = JSNull)"

definition property :: "jsvalue \<Rightarrow> string \<Rightarrow> jsvalue" where
  "property v name =
     (case v of
        JSObject ps \<Rightarrow> (case map_of ps name of None \<Rightarrow> JSUndefined | Some w \<Rightarrow> w)
      | _ \<Rightarrow> JSUndefined)"

text \<open>\<^verbatim>\<open>a && b\<close> is \<open>a\<close> when \<open>a\<close> is falsy, else \<open>b\<close>.\<close>

definition js_and :: "jsvalue \<Rightarrow> jsvalue \<Rightarrow> jsvalue" where
  "js_and a b = (if ToBoolean a then b else a)"

subsection \<open>parseInt in base 10\<close>

text \<open>
  \<^verbatim>\<open>parseInt(v, 10)\<close> reads the text of \<open>v\<close>: leading white space is skipped, one sign is
  read, then the longest run of decimal digits; no digit gives not-a-number. The result
  is the integer the digits denote (the rounding of an integer beyond \<open>2^53\<close> to the
  nearest double is not modelled).
\<close>

definition isStrWhiteSpaceChar :: "char \<Rightarrow> bool" where
  "isStrWhiteSpaceChar c = ((of_char c :: nat) \<in> set [9, 10, 11, 12, 13, 32, 160])"

definition isDigit :: "char \<Rightarrow> bool" where
  "isDigit c = (c \<in> set ''0123456789'')"

definition digitValue :: "char \<Rightarrow> nat" where
  "digitValue c = of_char c - 48"

definition parseInt_string :: "string \<Rightarrow> number" where
  "parseInt_string s =
     (let S = dropWhile isStrWhiteSpaceChar s;
          sign = (case S of c # _ \<Rightarrow> if c = CHR ''-'' then - 1 else 1 | [] \<Rightarrow> (1 :: int));
          S' = (case S of c # t \<Rightarrow> if c = CHR ''+'' \<or> c = CHR ''-'' then t else S | [] \<Rightarrow> S);
          Z = takeWhile isDigit S'
      in if Z = [] then NaN
         else Fin (of_int (sign * int (foldl (\<lambda>a c. 10 * a + digitValue c) 0 Z))))"

definition parseInt :: "('i, 'l) externals \<Rightarrow> jsvalue \<Rightarrow> number" where
  "parseInt ext v = parseInt_string (ToString ext v)"

text \<open>
  The integer that \<open>parseInt\<close> reads, when it reads one: the statements about \<open>toInteger\<close>
  speak of it.
\<close>

definition parsedInteger :: "('i, 'l) externals \<Rightarrow> jsvalue \<Rightarrow> int option" where
  "parsedInteger ext v = (case parseInt ext v of Fin q \<Rightarrow> Some \<lfloor>q\<rfloor> | _ \<Rightarrow> None)"

definition parseFloat :: "('i, 'l) externals \<Rightarrow> jsvalue \<Rightarrow> number" where
  "parseFloat ext v = parseFloat_string ext (ToString ext v)"

section \<open>Primitive coercers\<close>

definition toBoolean :: "jsvalue \<Rightarrow> bool" where
  "toBoolean v = (if v = JSString ''false'' then False else ToBoolean v)"

definition toBooleanWithDefault :: "jsvalue \<Rightarrow> bool \<Rightarrow> bool" where
  "toBooleanWithDefault v defaultValue = (if v = JSUndefined then defaultValue else toBoolean v)"

definition toFloat :: "('i, 'l) externals \<Rightarrow> jsvalue \<Rightarrow> number \<Rightarrow> number" where
  "toFloat ext source defaultValue =
     (let r = parseFloat ext source in if isNaN r then defaultValue else r)"

text \<open>
  \<open>toInteger\<close>: an omitted bound (\<open>None\<close>) takes its default. The result of \<^verbatim>\<open>r | 0\<close> is
  a signed 32-bit integer, so the function returns an \<open>int\<close>.
\<close>

definition toInteger :: "('i, 'l) externals \<Rightarrow> jsvalue \<Rightarrow> number option \<Rightarrow> number option \<Rightarrow> int" where
  "toInteger ext source minimum maximum =
     (let lo = (case minimum of None \<Rightarrow> MIN_SAFE_SMALL_INTEGER ext | Some m \<Rightarrow> m);
          hi = (case maximum of None \<Rightarrow> MAX_SAFE_SMALL_INTEGER ext | Some m \<Rightarrow> m);
          r = parseInt ext source;
          r = (if isNaN r then Fin 0 else r);
          r = Math_max lo r;
          r = Math_min hi r
      in ToInt32 r)"

text \<open>
  \<^verbatim>\<open>r.sort()\<close> with no comparison function orders the elements by their texts, compared
  code unit by code unit. The texts of distinct integers are distinct, so the order of
  the result does not depend on the sorting algorithm.
\<close>

definition Array_sort :: "int list \<Rightarrow> int list" where
  "Array_sort r = sort_key Integer_toString r"

definition toSortedIntegerArray :: "('i, 'l) externals \<Rightarrow> jsvalue \<Rightarrow> int list" where
  "toSortedIntegerArray ext source =
     (case source of
        JSArray arrSource \<Rightarrow> Array_sort (map (\<lambda>el. toInteger ext el None None) arrSource)
      | _ \<Rightarrow> [])"

definition toIntegerWithDefault :: "('i, 'l) externals \<Rightarrow> jsvalue \<Rightarrow> number \<Rightarrow> number" where
  "toIntegerWithDefault ext source defaultValue =
     (if source = JSUndefined then defaultValue else of_int32 (toInteger ext source None None))"

section \<open>The digit count of the largest line number\<close>

text \<open>
  \<^verbatim>\<open>digitCount\<close> divides by ten until the number is 0. Its argument is a line number: an
  integer, held in a double. \<^verbatim>\<open>n / 10\<close> is the double nearest to the quotient (ties go to
  the even significand), and \<^verbatim>\<open>Math.floor\<close> takes the floor of that double.

  \<open>quotient10 n\<close> is that double for \<open>n > 0\<close>: with \<open>E\<close> the binary exponent of \<open>n / 10\<close>
  (\<open>2^E \<le> n / 10 < 2^(E+1)\<close>, read off the bit length of \<open>n\<close>), the quotient is rounded to
  a multiple of \<open>2^(E - 52)\<close>, which leaves 53 significant bits. No quotient of an integer
  by ten is small or large enough to leave the range of normal doubles.
\<close>

definition round_half_even :: "int \<Rightarrow> int \<Rightarrow> int" where
  "round_half_even a b =
     (let q = a div b; r = a mod b
      in if b < 2 * r \<or> (2 * r = b \<and> odd q) then q + 1 else q)"

definition quotient10 :: "int \<Rightarrow> rat" where
  "quotient10 n =
     (let L = bitlen n;
          E = (if 10 * 2 ^ nat L \<le> 16 * n then L - 4 else L - 5);
          e = E - 52
      in if 0 \<le> e then of_int (round_half_even n (10 * 2 ^ nat e) * 2 ^ nat e)
         else of_int (round_half_even (n * 2 ^ nat (- e)) 10) / 2 ^ nat (- e))"

definition divide10 :: "int \<Rightarrow> rat" where
  "divide10 n = (if n = 0 then 0 else if 0 < n then quotient10 n else - quotient10 (- n))"

text \<open>
  The loop does not end on a negative number (\<open>-1 / 10\<close> has floor \<open>-1\<close>), so it is a
  partial function: \<open>None\<close> is the run that never returns.
\<close>

partial_function (option) digitCount_loop :: "int \<Rightarrow> nat \<Rightarrow> nat option" where
  "digitCount_loop n r =
     (if n \<noteq> 0 then digitCount_loop \<lfloor>divide10 n\<rfloor> (r + 1) else Some r)"

declare digitCount_loop.simps [code]

definition digitCount :: "int \<Rightarrow> nat option" where
  "digitCount n = map_option (\<lambda>r. if r \<noteq> 0 then r else 1) (digitCount_loop n 0)"

section \<open>Process-wide shared toggles\<close>

type_synonym listener = nat

text \<open>
  Modelled from the spec: the class \<^verbatim>\<open>Emitter\<close> of \<^verbatim>\<open>vs/base/common/event\<close> is not in the
  sources. Following the spec, an emitter holds its current subscribers in subscription
  order.
\<close>

record Emitter =
  listeners :: "listener list"

text \<open>
  Modelled from the spec: \<^verbatim>\<open>Emitter.fire\<close> is not in the sources. Following the spec, it
  synchronously notifies each current subscriber once, in subscription order, with the
  value. A notification is recorded as the pair of the subscriber and the value; what a
  subscriber does with it is not part of this model.
\<close>

definition fire :: "Emitter \<Rightarrow> 'e \<Rightarrow> (listener \<times> 'e) list" where
  "fire em v = map (\<lambda>l. (l, v)) (listeners em)"

text \<open>
  Modelled from the spec: subscribing to the event of an emitter (\<^verbatim>\<open>Emitter.event\<close>, not in
  the sources) adds the subscriber after the current ones.
\<close>

definition subscribe :: "listener \<Rightarrow> Emitter \<Rightarrow> Emitter" where
  "subscribe l em = em\<lparr>listeners := listeners em @ [l]\<rparr>"

text \<open>
  \<^verbatim>\<open>TabFocus\<close> and \<^verbatim>\<open>GlobalScreenReaderNVDA\<close>: the state of each is its private value and
  its emitter (the leading underscore of a private member is dropped; the static
  \<^verbatim>\<open>_value\<close> is \<open>nvda_value\<close>). A setter returns the new state and the notifications it made.
\<close>

record TabFocus =
  tabFocus :: bool
  onDidChangeTabFocus :: Emitter

definition TabFocus_initial :: TabFocus where
  "TabFocus_initial = \<lparr>tabFocus = False, onDidChangeTabFocus = \<lparr>listeners = []\<rparr>\<rparr>"

definition getTabFocusMode :: "TabFocus \<Rightarrow> bool" where
  "getTabFocusMode this = tabFocus this"

definition setTabFocusMode :: "bool \<Rightarrow> TabFocus \<Rightarrow> TabFocus \<times> (listener \<times> bool) list" where
  "setTabFocusMode tabFocusMode this =
     (if tabFocus this = tabFocusMode then (this, [])
      else
        (let this' = this\<lparr>tabFocus := tabFocusMode\<rparr>
         in (this', fire (onDidChangeTabFocus this') (tabFocus this'))))"

record GlobalScreenReaderNVDA =
  nvda_value :: bool
  onChange :: Emitter

definition GlobalScreenReaderNVDA_initial :: GlobalScreenReaderNVDA where
  "GlobalScreenReaderNVDA_initial = \<lparr>nvda_value = False, onChange = \<lparr>listeners = []\<rparr>\<rparr>"

definition getValue :: "GlobalScreenReaderNVDA \<Rightarrow> bool" where
  "getValue this = nvda_value this"

definition setValue :: "bool \<Rightarrow> GlobalScreenReaderNVDA \<Rightarrow> GlobalScreenReaderNVDA \<times> (listener \<times> bool) list" where
  "setValue v this =
     (if nvda_value this = v then (this, [])
      else
        (let this' = this\<lparr>nvda_value := v\<rparr>
         in (this', fire (onChange this') (nvda_value this'))))"

section \<open>The configuration snapshot\<close>

text \<open>
  The classes of \<^verbatim>\<open>editorCommon\<close> (\<^verbatim>\<open>InternalEditorOptions\<close> and its groups), \<^verbatim>\<open>FontInfo\<close>
  and the layout calculator's input and result are declared outside the sources. A
  snapshot is modelled as the record of the fields that \<^verbatim>\<open>createInternalEditorOptions\<close>
  hands to each constructor, with the values it hands over. Of \<^verbatim>\<open>FontInfo\<close> and of the
  layout result only the fields this file reads are named; the others live in the
  records' extensions.
\<close>

datatype ScrollbarVisibility = Auto | Hidden | Visible

datatype WrappingIndent = WrappingIndent_None | WrappingIndent_Same | WrappingIndent_Indent

datatype TextEditorCursorStyle = Line | Block | Underline | LineThin | BlockOutline | UnderlineThin

datatype TextEditorCursorBlinkingStyle = Blink | Smooth | Phase | Expand | Solid

record FontInfo =
  lineHeight :: number
  typicalHalfwidthCharacterWidth :: number
  maxDigitWidth :: number

record EditorLayoutInfo =
  viewportColumn :: number

record IEditorLayoutProviderOpts =
  outerWidth :: number
  outerHeight :: number
  showGlyphMargin :: bool
  lineHeight :: number
  showLineNumbers :: bool
  lineNumbersMinChars :: number
  lineNumbersDigitCount :: number
  lineDecorationsWidth :: number
  typicalHalfwidthCharacterWidth :: number
  maxDigitWidth :: number
  verticalScrollbarWidth :: number
  horizontalScrollbarHeight :: number
  scrollbarArrowSize :: number
  verticalScrollbarHasArrows :: bool
  minimap :: bool
  minimapRenderCharacters :: bool
  minimapMaxColumn :: number
  pixelRatio :: number

record InternalEditorScrollbarOptions =
  vertical :: ScrollbarVisibility
  horizontal :: ScrollbarVisibility
  arrowSize :: number
  useShadows :: bool
  verticalHasArrows :: bool
  horizontalHasArrows :: bool
  horizontalScrollbarSize :: number
  horizontalSliderSize :: number
  verticalScrollbarSize :: number
  verticalSliderSize :: number
  handleMouseWheel :: bool
  mouseWheelScrollSensitivity :: number

record InternalEditorMinimapOptions =
  enabled :: bool
  renderCharacters :: bool
  maxColumn :: number

record EditorWrappingInfo =
  isViewportWrapping :: bool
  wrappingColumn :: number
  wrappingIndent :: WrappingIndent
  wordWrapBreakBeforeCharacters :: string
  wordWrapBreakAfterCharacters :: string
  wordWrapBreakObtrusiveCharacters :: string

record InternalEditorViewOptions =
  theme :: jsvalue
  canUseTranslate3d :: bool
  disableMonospaceOptimizations :: bool
  experimentalScreenReader :: bool
  rulers :: "int list"
  ariaLabel :: string
  renderLineNumbers :: bool
  renderCustomLineNumbers :: jsvalue
  renderRelativeLineNumbers :: bool
  selectOnLineNumbers :: bool
  glyphMargin :: bool
  revealHorizontalRightPadding :: int
  roundedSelection :: bool
  overviewRulerLanes :: int
  cursorBlinking :: TextEditorCursorBlinkingStyle
  mouseWheelZoom :: bool
  cursorStyle :: TextEditorCursorStyle
  hideCursorInOverviewRuler :: bool
  scrollBeyondLastLine :: bool
  editorClassName :: string
  stopRenderingLineAfter :: number
  renderWhitespace :: jsvalue
  renderControlCharacters :: bool
  renderIndentGuides :: bool
  renderLineHighlight :: jsvalue
  scrollbar :: InternalEditorScrollbarOptions
  minimap :: InternalEditorMinimapOptions
  fixedOverflowWidgets :: bool

record EditorContribOptions =
  selectionClipboard :: bool
  hover :: bool
  contextmenu :: bool
  quickSuggestions :: bool
  quickSuggestionsDelay :: int
  parameterHints :: bool
  iconsInSuggestions :: bool
  formatOnType :: bool
  formatOnPaste :: bool
  suggestOnTriggerCharacters :: bool
  acceptSuggestionOnEnter :: bool
  acceptSuggestionOnCommitCharacter :: bool
  snippetSuggestions :: jsvalue
  emptySelectionClipboard :: jsvalue
  wordBasedSuggestions :: jsvalue
  suggestFontSize :: jsvalue
  suggestLineHeight :: jsvalue
  selectionHighlight :: bool
  codeLens :: jsvalue
  folding :: bool
  matchBrackets :: bool

text \<open>
  Modelled from the spec: \<^verbatim>\<open>IConfigurationChangedEvent\<close> is declared in \<^verbatim>\<open>editorCommon\<close>, which
  is not in the sources. Following the spec's ChangeDelta, it maps each top-level group
  of the snapshot to a boolean: whether that group differs between two snapshots.
\<close>

record IConfigurationChangedEvent =
  lineHeight :: bool
  readOnly :: bool
  wordSeparators :: bool
  autoClosingBrackets :: bool
  useTabStops :: bool
  tabFocusMode :: bool
  dragAndDrop :: bool
  layoutInfo :: bool
  fontInfo :: bool
  viewInfo :: bool
  wrappingInfo :: bool
  contribInfo :: bool

record ('l, 'f) InternalEditorOptions =
  lineHeight :: number
  readOnly :: bool
  wordSeparators :: string
  autoClosingBrackets :: bool
  useTabStops :: bool
  tabFocusMode :: bool
  dragAndDrop :: bool
  layoutInfo :: "'l"
  fontInfo :: "'f"
  viewInfo :: InternalEditorViewOptions
  wrappingInfo :: EditorWrappingInfo
  contribInfo :: EditorContribOptions

text \<open>
  The raw options: each option name to its value, \<^verbatim>\<open>undefined\<close> when the option is absent.
\<close>

type_synonym IEditorOptions = "string \<Rightarrow> jsvalue"

section \<open>The option normalizer\<close>

text \<open>
  \<^verbatim>\<open>InternalEditorOptionsHelper.createInternalEditorOptions\<close>. Where a parameter or a
  local variable of the source has the name of a field, the parameter carries a prime.
  The blocks of the function that compute one local value each are definitions of
  their own, in the order of the source.
\<close>

definition wrappingIndentFromString :: "jsvalue \<Rightarrow> WrappingIndent" where
  "wrappingIndentFromString v =
     (if v = JSString ''indent'' then WrappingIndent_Indent
      else if v = JSString ''same'' then WrappingIndent_Same
      else WrappingIndent_None)"

definition cursorStyleFromString :: "jsvalue \<Rightarrow> TextEditorCursorStyle" where
  "cursorStyleFromString v =
     (if v = JSString ''line'' then Line
      else if v = JSString ''block'' then Block
      else if v = JSString ''underline'' then Underline
      else if v = JSString ''line-thin'' then LineThin
      else if v = JSString ''block-outline'' then BlockOutline
      else if v = JSString ''underline-thin'' then UnderlineThin
      else Line)"

definition cursorBlinkingStyleFromString :: "jsvalue \<Rightarrow> TextEditorCursorBlinkingStyle" where
  "cursorBlinkingStyleFromString v =
     (if v = JSString ''blink'' then Blink
      else if v = JSString ''smooth'' then Smooth
      else if v = JSString ''phase'' then Phase
      else if v = JSString ''expand'' then Expand
      else if v = JSString ''visible'' \<or> v = JSString ''solid'' then Solid
      else Blink)"

definition visibilityFromString :: "jsvalue \<Rightarrow> ScrollbarVisibility" where
  "visibilityFromString v =
     (if v = JSString ''hidden'' then Hidden
      else if v = JSString ''visible'' then Visible
      else Auto)"

text \<open>
  \<^verbatim>\<open>_sanitizeScrollbarOpts\<close> and \<^verbatim>\<open>_sanitizeMinimapOpts\<close> read properties of \<open>raw\<close>: the
  first read throws when \<open>raw\<close> is \<^verbatim>\<open>undefined\<close> or \<^verbatim>\<open>null\<close>.
\<close>

definition sanitizeScrollbarOpts ::
  "('i, 'l) externals \<Rightarrow> jsvalue \<Rightarrow> number \<Rightarrow> error + InternalEditorScrollbarOptions" where
  "sanitizeScrollbarOpts ext raw sensitivity =
     (if nullish raw then Inl TypeError
      else
        (let horizontalScrollbarSize = toIntegerWithDefault ext (property raw ''horizontalScrollbarSize'') (Fin 10);
             verticalScrollbarSize = toIntegerWithDefault ext (property raw ''verticalScrollbarSize'') (Fin 14)
         in Inr \<lparr>
              vertical = visibilityFromString (property raw ''vertical''),
              horizontal = visibilityFromString (property raw ''horizontal''),
              arrowSize = toIntegerWithDefault ext (property raw ''arrowSize'') (Fin 11),
              useShadows = toBooleanWithDefault (property raw ''useShadows'') True,
              verticalHasArrows = toBooleanWithDefault (property raw ''verticalHasArrows'') False,
              horizontalHasArrows = toBooleanWithDefault (property raw ''horizontalHasArrows'') False,
              horizontalScrollbarSize = horizontalScrollbarSize,
              horizontalSliderSize =
                toIntegerWithDefault ext (property raw ''horizontalSliderSize'') horizontalScrollbarSize,
              verticalScrollbarSize = verticalScrollbarSize,
              verticalSliderSize =
                toIntegerWithDefault ext (property raw ''verticalSliderSize'') verticalScrollbarSize,
              handleMouseWheel = toBooleanWithDefault (property raw ''handleMouseWheel'') True,
              mouseWheelScrollSensitivity = sensitivity\<rparr>))"

definition sanitizeMinimapOpts ::
  "('i, 'l) externals \<Rightarrow> jsvalue \<Rightarrow> error + InternalEditorMinimapOptions" where
  "sanitizeMinimapOpts ext raw =
     (if nullish raw then Inl TypeError
      else
        (let maxColumn = toIntegerWithDefault ext (property raw ''maxColumn'') (minimap_maxColumn ext);
             maxColumn = (if number_less maxColumn (Fin 1) then Fin 1 else maxColumn)
         in Inr \<lparr>
              enabled = toBooleanWithDefault (property raw ''enabled'') (minimap_enabled ext),
              renderCharacters =
                toBooleanWithDefault (property raw ''renderCharacters'') (minimap_renderCharacters ext),
              maxColumn = maxColumn\<rparr>))"

text \<open>Lines 117 to 122: \<open>stopRenderingLineAfter\<close>.\<close>

definition stopRenderingLineAfter_block :: "('i, 'l) externals \<Rightarrow> IEditorOptions \<Rightarrow> number" where
  "stopRenderingLineAfter_block ext opts =
     (if opts ''stopRenderingLineAfter'' \<noteq> JSUndefined
      then of_int32 (toInteger ext (opts ''stopRenderingLineAfter'') (Some (Fin (- 1))) None)
      else Fin 10000)"

text \<open>
  Lines 130 to 139: \<open>lineDecorationsWidth\<close>. The test of the regular expression
  \<^verbatim>\<open>/^\d+(\.\d+)?ch$/\<close> is \<open>matches_ch\<close>: digits, optionally a dot and digits, then \<^verbatim>\<open>ch\<close>
  and the end of the text.
\<close>

definition matches_ch :: "string \<Rightarrow> bool" where
  "matches_ch s =
     (let d1 = takeWhile isDigit s; r1 = dropWhile isDigit s
      in d1 \<noteq> [] \<and>
         (r1 = ''ch'' \<or>
          (case r1 of
             [] \<Rightarrow> False
           | c # r2 \<Rightarrow>
               c = CHR ''.'' \<and> takeWhile isDigit r2 \<noteq> [] \<and> dropWhile isDigit r2 = ''ch'')))"

definition lineDecorationsWidth_block ::
  "('i, 'l) externals \<Rightarrow> IEditorOptions \<Rightarrow> 'f FontInfo_scheme \<Rightarrow> number" where
  "lineDecorationsWidth_block ext opts fontInfo' =
     (let w =
        (case opts ''lineDecorationsWidth'' of
           JSString s \<Rightarrow>
             if matches_ch s
             then
               (let multiple = parseFloat_string ext (take (length s - 2) s)
                in number_times ext multiple (FontInfo.typicalHalfwidthCharacterWidth fontInfo'))
             else of_int32 (toInteger ext (JSString s) (Some (Fin 0)) None)
         | v \<Rightarrow> of_int32 (toInteger ext v (Some (Fin 0)) None))
      in if ToBoolean (opts ''folding'') then number_plus ext w (Fin 16) else w)"

text \<open>
  Lines 141 to 170: the three values derived from \<open>lineNumbers\<close>, with \<^verbatim>\<open>null\<close> for the
  absent custom renderer.
\<close>

definition lineNumbers_block :: "IEditorOptions \<Rightarrow> bool \<times> jsvalue \<times> bool" where
  "lineNumbers_block opts =
     (let lineNumbers = opts ''lineNumbers'';
          lineNumbers =
            (if lineNumbers = JSBoolean True then JSString ''on''
             else if lineNumbers = JSBoolean False then JSString ''off''
             else lineNumbers)
      in if (case lineNumbers of JSFunction _ \<Rightarrow> True | _ \<Rightarrow> False) then (True, lineNumbers, False)
         else if lineNumbers = JSString ''relative'' then (True, JSNull, True)
         else if lineNumbers = JSString ''on'' then (True, JSNull, False)
         else (False, JSNull, False))"

text \<open>Lines 193 to 232: \<open>bareWrappingInfo\<close>, the pair of \<open>isViewportWrapping\<close> and \<open>wrappingColumn\<close>.\<close>

definition bareWrappingInfo ::
  "('i, 'l) externals \<Rightarrow> IEditorOptions \<Rightarrow> bool \<Rightarrow> 'z EditorLayoutInfo_scheme \<Rightarrow> bool \<times> number" where
  "bareWrappingInfo ext opts dominated layoutInfo' =
     (let wordWrap = opts ''wordWrap'';
          wordWrapColumn = of_int32 (toInteger ext (opts ''wordWrapColumn'') (Some (Fin 1)) None);
          wordWrap =
            (if wordWrap = JSBoolean True then JSString ''on''
             else if wordWrap = JSBoolean False then JSString ''off''
             else wordWrap)
      in if dominated then (True, Math_max (Fin 1) (viewportColumn layoutInfo'))
         else if wordWrap = JSString ''on'' then (True, Math_max (Fin 1) (viewportColumn layoutInfo'))
         else if wordWrap = JSString ''bounded''
           then (True, Math_min (Math_max (Fin 1) (viewportColumn layoutInfo')) wordWrapColumn)
         else if wordWrap = JSString ''wordWrapColumn'' then (False, wordWrapColumn)
         else (False, Fin (- 1)))"

text \<open>Lines 251 to 265: the values of \<open>renderWhitespace\<close> and \<open>renderLineHighlight\<close>.\<close>

definition renderWhitespace_block :: "IEditorOptions \<Rightarrow> jsvalue" where
  "renderWhitespace_block opts =
     (let renderWhitespace = opts ''renderWhitespace''
      in if renderWhitespace = JSBoolean True then JSString ''boundary''
         else if renderWhitespace = JSBoolean False then JSString ''none''
         else renderWhitespace)"

definition renderLineHighlight_block :: "IEditorOptions \<Rightarrow> jsvalue" where
  "renderLineHighlight_block opts =
     (let renderLineHighlight = opts ''renderLineHighlight''
      in if renderLineHighlight = JSBoolean True then JSString ''line''
         else if renderLineHighlight = JSBoolean False then JSString ''none''
         else renderLineHighlight)"

text \<open>Lines 267 to 296: the view options.\<close>

definition viewInfo_block ::
  "('i, 'l) externals \<Rightarrow> IEditorOptions \<Rightarrow> string \<Rightarrow> bool \<Rightarrow> InternalEditorScrollbarOptions \<Rightarrow>
   InternalEditorMinimapOptions \<Rightarrow> InternalEditorViewOptions" where
  "viewInfo_block ext opts editorClassName' canUseTranslate3d' scrollbar' minimap' =
     (let glyphMargin = toBoolean (opts ''glyphMargin'');
          renderLineNumbers = fst (lineNumbers_block opts);
          renderCustomLineNumbers = fst (snd (lineNumbers_block opts));
          renderRelativeLineNumbers = snd (snd (lineNumbers_block opts))
      in \<lparr>theme = opts ''theme'',
          canUseTranslate3d = canUseTranslate3d',
          disableMonospaceOptimizations =
            (toBoolean (opts ''disableMonospaceOptimizations'') \<or> toBoolean (opts ''fontLigatures'')),
          experimentalScreenReader = toBoolean (opts ''experimentalScreenReader''),
          rulers = toSortedIntegerArray ext (opts ''rulers''),
          ariaLabel = ToString ext (opts ''ariaLabel''),
          renderLineNumbers = renderLineNumbers,
          renderCustomLineNumbers = renderCustomLineNumbers,
          renderRelativeLineNumbers = renderRelativeLineNumbers,
          selectOnLineNumbers = toBoolean (opts ''selectOnLineNumbers''),
          glyphMargin = glyphMargin,
          revealHorizontalRightPadding =
            toInteger ext (opts ''revealHorizontalRightPadding'') (Some (Fin 0)) None,
          roundedSelection = toBoolean (opts ''roundedSelection''),
          overviewRulerLanes = toInteger ext (opts ''overviewRulerLanes'') (Some (Fin 0)) (Some (Fin 3)),
          cursorBlinking = cursorBlinkingStyleFromString (opts ''cursorBlinking''),
          mouseWheelZoom = toBoolean (opts ''mouseWheelZoom''),
          cursorStyle = cursorStyleFromString (opts ''cursorStyle''),
          hideCursorInOverviewRuler = toBoolean (opts ''hideCursorInOverviewRuler''),
          scrollBeyondLastLine = toBoolean (opts ''scrollBeyondLastLine''),
          editorClassName = editorClassName',
          stopRenderingLineAfter = stopRenderingLineAfter_block ext opts,
          renderWhitespace = renderWhitespace_block opts,
          renderControlCharacters = toBoolean (opts ''renderControlCharacters''),
          renderIndentGuides = toBoolean (opts ''renderIndentGuides''),
          renderLineHighlight = renderLineHighlight_block opts,
          scrollbar = scrollbar',
          minimap = minimap',
          fixedOverflowWidgets = toBoolean (opts ''fixedOverflowWidgets'')\<rparr>)"

text \<open>Lines 298 to 320: the contribution options.\<close>

definition contribInfo_block :: "('i, 'l) externals \<Rightarrow> IEditorOptions \<Rightarrow> EditorContribOptions" where
  "contribInfo_block ext opts =
     \<lparr>selectionClipboard = toBoolean (opts ''selectionClipboard''),
      hover = toBoolean (opts ''hover''),
      contextmenu = toBoolean (opts ''contextmenu''),
      quickSuggestions = toBoolean (opts ''quickSuggestions''),
      quickSuggestionsDelay = toInteger ext (opts ''quickSuggestionsDelay'') None None,
      parameterHints = toBoolean (opts ''parameterHints''),
      iconsInSuggestions = toBoolean (opts ''iconsInSuggestions''),
      formatOnType = toBoolean (opts ''formatOnType''),
      formatOnPaste = toBoolean (opts ''formatOnPaste''),
      suggestOnTriggerCharacters = toBoolean (opts ''suggestOnTriggerCharacters''),
      acceptSuggestionOnEnter = toBoolean (opts ''acceptSuggestionOnEnter''),
      acceptSuggestionOnCommitCharacter = toBoolean (opts ''acceptSuggestionOnCommitCharacter''),
      snippetSuggestions = opts ''snippetSuggestions'',
      emptySelectionClipboard = opts ''emptySelectionClipboard'',
      wordBasedSuggestions = opts ''wordBasedSuggestions'',
      suggestFontSize = opts ''suggestFontSize'',
      suggestLineHeight = opts ''suggestLineHeight'',
      selectionHighlight = toBoolean (opts ''selectionHighlight''),
      codeLens = js_and (opts ''referenceInfos'') (opts ''codeLens''),
      folding = toBoolean (opts ''folding''),
      matchBrackets = toBoolean (opts ''matchBrackets'')\<rparr>"

text \<open>Lines 172 to 191: the input of the layout calculator.\<close>

definition layoutInput ::
  "('i, 'l) externals \<Rightarrow> number \<Rightarrow> number \<Rightarrow> IEditorOptions \<Rightarrow> 'f FontInfo_scheme \<Rightarrow> number \<Rightarrow>
   number \<Rightarrow> InternalEditorScrollbarOptions \<Rightarrow> InternalEditorMinimapOptions \<Rightarrow>
   IEditorLayoutProviderOpts" where
  "layoutInput ext outerWidth' outerHeight' opts fontInfo' lineNumbersDigitCount' pixelRatio'
     scrollbar' minimap' =
     \<lparr>outerWidth = outerWidth',
      outerHeight = outerHeight',
      showGlyphMargin = toBoolean (opts ''glyphMargin''),
      lineHeight = FontInfo.lineHeight fontInfo',
      showLineNumbers = fst (lineNumbers_block opts),
      lineNumbersMinChars = of_int32 (toInteger ext (opts ''lineNumbersMinChars'') (Some (Fin 1)) None),
      lineNumbersDigitCount = lineNumbersDigitCount',
      lineDecorationsWidth = lineDecorationsWidth_block ext opts fontInfo',
      typicalHalfwidthCharacterWidth = FontInfo.typicalHalfwidthCharacterWidth fontInfo',
      maxDigitWidth = FontInfo.maxDigitWidth fontInfo',
      verticalScrollbarWidth = verticalScrollbarSize scrollbar',
      horizontalScrollbarHeight = horizontalScrollbarSize scrollbar',
      scrollbarArrowSize = arrowSize scrollbar',
      verticalScrollbarHasArrows = verticalHasArrows scrollbar',
      minimap = enabled minimap',
      minimapRenderCharacters = renderCharacters minimap',
      minimapMaxColumn = maxColumn minimap',
      pixelRatio = pixelRatio'\<rparr>"

text \<open>
  The function reads the shared tab-focus toggle (line 245) and writes no shared state:
  in state-passing style it returns its result, a thrown error (\<open>Inl\<close>) or the snapshot,
  together with the toggle as the pass leaves it.
\<close>

definition createInternalEditorOptions ::
  "(IEditorLayoutProviderOpts, 'z EditorLayoutInfo_scheme) externals \<Rightarrow> number \<Rightarrow> number \<Rightarrow>
   IEditorOptions \<Rightarrow> 'f FontInfo_scheme \<Rightarrow> string \<Rightarrow> bool \<Rightarrow> number \<Rightarrow> bool \<Rightarrow> number \<Rightarrow>
   TabFocus \<Rightarrow>
   (error + ('z EditorLayoutInfo_scheme, 'f FontInfo_scheme) InternalEditorOptions) \<times> TabFocus" where
  "createInternalEditorOptions ext outerWidth' outerHeight' opts fontInfo' editorClassName'
     dominated lineNumbersDigitCount' canUseTranslate3d' pixelRatio' shared =
     (case sanitizeScrollbarOpts ext (opts ''scrollbar'')
             (toFloat ext (opts ''mouseWheelScrollSensitivity'') (Fin 1)) of
        Inl e \<Rightarrow> (Inl e, shared)
      | Inr scrollbar' \<Rightarrow>
          (case sanitizeMinimapOpts ext (opts ''minimap'') of
             Inl e \<Rightarrow> (Inl e, shared)
           | Inr minimap' \<Rightarrow>
               (let layoutInfo =
                      compute ext
                        (layoutInput ext outerWidth' outerHeight' opts fontInfo'
                           lineNumbersDigitCount' pixelRatio' scrollbar' minimap');
                    bare = bareWrappingInfo ext opts dominated layoutInfo;
                    wrappingInfo =
                      \<lparr>isViewportWrapping = fst bare,
                       wrappingColumn = snd bare,
                       wrappingIndent = wrappingIndentFromString (opts ''wrappingIndent''),
                       wordWrapBreakBeforeCharacters = ToString ext (opts ''wordWrapBreakBeforeCharacters''),
                       wordWrapBreakAfterCharacters = ToString ext (opts ''wordWrapBreakAfterCharacters''),
                       wordWrapBreakObtrusiveCharacters =
                         ToString ext (opts ''wordWrapBreakObtrusiveCharacters'')\<rparr>;
                    readOnly = toBoolean (opts ''readOnly'');
                    tabFocusMode = getTabFocusMode shared;
                    tabFocusMode = (if readOnly then True else tabFocusMode);
                    viewInfo = viewInfo_block ext opts editorClassName' canUseTranslate3d' scrollbar' minimap';
                    contribInfo = contribInfo_block ext opts
                in (Inr \<lparr>lineHeight = FontInfo.lineHeight fontInfo',
                         readOnly = readOnly,
                         wordSeparators = ToString ext (opts ''wordSeparators''),
                         autoClosingBrackets = toBoolean (opts ''autoClosingBrackets''),
                         useTabStops = toBoolean (opts ''useTabStops''),
                         tabFocusMode = tabFocusMode,
                         dragAndDrop = toBoolean (opts ''dragAndDrop''),
                         layoutInfo = layoutInfo,
                         fontInfo = fontInfo',
                         viewInfo = viewInfo,
                         wrappingInfo = wrappingInfo,
                         contribInfo = contribInfo\<rparr>,
                    shared))))"

section \<open>The configuration snapshot store\<close>

text \<open>
  Modelled from the spec: \<^verbatim>\<open>InternalEditorOptions.equals\<close> is in \<^verbatim>\<open>editorCommon\<close>, which is not
  in the sources. Following the spec, it is exact structural equality.
\<close>

definition equals ::
  "('l, 'f) InternalEditorOptions \<Rightarrow> ('l, 'f) InternalEditorOptions \<Rightarrow> bool" where
  "equals this other = (this = other)"

text \<open>
  Modelled from the spec: \<^verbatim>\<open>InternalEditorOptions.clone\<close> is in \<^verbatim>\<open>editorCommon\<close>, which is not
  in the sources. Following the spec's clonable handle, it is a structural copy.
\<close>

definition clone :: "('l, 'f) InternalEditorOptions \<Rightarrow> ('l, 'f) InternalEditorOptions" where
  "clone this = this"

text \<open>
  Modelled from the spec: \<^verbatim>\<open>InternalEditorOptions.createChangeEvent\<close> is in \<^verbatim>\<open>editorCommon\<close>,
  which is not in the sources. Following the spec, it marks every top-level group that
  differs between the two snapshots.
\<close>

definition createChangeEvent ::
  "('l, 'f) InternalEditorOptions \<Rightarrow> ('l, 'f) InternalEditorOptions \<Rightarrow> IConfigurationChangedEvent" where
  "createChangeEvent this newOpts =
     \<lparr>IConfigurationChangedEvent.lineHeight = (lineHeight this \<noteq> lineHeight newOpts),
      IConfigurationChangedEvent.readOnly = (readOnly this \<noteq> readOnly newOpts),
      IConfigurationChangedEvent.wordSeparators = (wordSeparators this \<noteq> wordSeparators newOpts),
      IConfigurationChangedEvent.autoClosingBrackets =
        (autoClosingBrackets this \<noteq> autoClosingBrackets newOpts),
      IConfigurationChangedEvent.useTabStops = (useTabStops this \<noteq> useTabStops newOpts),
      IConfigurationChangedEvent.tabFocusMode = (tabFocusMode this \<noteq> tabFocusMode newOpts),
      IConfigurationChangedEvent.dragAndDrop = (dragAndDrop this \<noteq> dragAndDrop newOpts),
      IConfigurationChangedEvent.layoutInfo = (layoutInfo this \<noteq> layoutInfo newOpts),
      IConfigurationChangedEvent.fontInfo = (fontInfo this \<noteq> fontInfo newOpts),
      IConfigurationChangedEvent.viewInfo = (viewInfo this \<noteq> viewInfo newOpts),
      IConfigurationChangedEvent.wrappingInfo = (wrappingInfo this \<noteq> wrappingInfo newOpts),
      IConfigurationChangedEvent.contribInfo = (contribInfo this \<noteq> contribInfo newOpts)\<rparr>"

text \<open>
  The abstract members of \<^verbatim>\<open>CommonEditorConfiguration\<close>, which a subclass supplies from
  the host surface, and \<^verbatim>\<open>BareFontInfo.createFromRawSettings\<close> and \<^verbatim>\<open>objects.mixin\<close>, which
  are not in the sources, are the fields of \<open>surface\<close>: what they return when an
  operation runs.
\<close>

record ('b, 'f) surface =
  getEditorClassName :: "jsvalue \<Rightarrow> bool \<Rightarrow> string"
  getOuterWidth :: number
  getOuterHeight :: number
  getCanUseTranslate3d :: bool
  getPixelRatio :: number
  readConfiguration :: "'b \<Rightarrow> 'f"
  createFromRawSettings :: "IEditorOptions \<Rightarrow> 'b"
  mixin :: "IEditorOptions \<Rightarrow> jsvalue \<Rightarrow> IEditorOptions"

text \<open>
  The state of a \<^verbatim>\<open>CommonEditorConfiguration\<close>: \<open>configWithDefaults\<close> is the options record
  that \<^verbatim>\<open>_configWithDefaults.getEditorOptions()\<close> returns.
\<close>

record ('l, 'f) CommonEditorConfiguration =
  editor :: "('l, 'f) InternalEditorOptions"
  editorClone :: "('l, 'f) InternalEditorOptions"
  configWithDefaults :: IEditorOptions
  isDominatedByLongLines :: bool
  lineNumbersDigitCount :: nat
  onDidChange :: Emitter

text \<open>
  What an operation of the store does besides changing its state, in order: a run of
  \<^verbatim>\<open>_computeInternalOptions\<close> (\<open>Recompute\<close>), a notification of a subscriber of \<^verbatim>\<open>onDidChange\<close>
  with a change event, and an error thrown to the caller.
\<close>

datatype effect = Recompute | Notify listener IConfigurationChangedEvent | Throw error

definition setOptions ::
  "('l, 'f) InternalEditorOptions \<Rightarrow> ('l, 'f) CommonEditorConfiguration \<Rightarrow>
   ('l, 'f) CommonEditorConfiguration \<times> effect list" where
  "setOptions newOptions this =
     (if equals (editor this) newOptions then (this, [])
      else
        (let changeEvent = createChangeEvent (editor this) newOptions;
             this = this\<lparr>editor := newOptions\<rparr>;
             this = this\<lparr>editorClone := clone (editor this)\<rparr>
         in (this, map (\<lambda>(l, e). Notify l e) (fire (onDidChange this) changeEvent))))"

definition computeInternalOptions ::
  "(IEditorLayoutProviderOpts, 'z EditorLayoutInfo_scheme) externals \<Rightarrow> ('b, 'f FontInfo_scheme) surface \<Rightarrow>
   TabFocus \<Rightarrow> ('z EditorLayoutInfo_scheme, 'f FontInfo_scheme) CommonEditorConfiguration \<Rightarrow>
   error + ('z EditorLayoutInfo_scheme, 'f FontInfo_scheme) InternalEditorOptions" where
  "computeInternalOptions ext surf shared this =
     (let opts = configWithDefaults this;
          editorClassName = getEditorClassName surf (opts ''theme'') (toBoolean (opts ''fontLigatures''));
          disableTranslate3d = toBoolean (opts ''disableTranslate3d'');
          canUseTranslate3d = getCanUseTranslate3d surf;
          canUseTranslate3d = (if disableTranslate3d then False else canUseTranslate3d);
          bareFontInfo = createFromRawSettings surf opts
      in fst (createInternalEditorOptions ext (getOuterWidth surf) (getOuterHeight surf) opts
                (readConfiguration surf bareFontInfo) editorClassName (isDominatedByLongLines this)
                (Fin (of_nat (lineNumbersDigitCount this))) canUseTranslate3d (getPixelRatio surf)
                shared))"

definition recomputeOptions ::
  "(IEditorLayoutProviderOpts, 'z EditorLayoutInfo_scheme) externals \<Rightarrow> ('b, 'f FontInfo_scheme) surface \<Rightarrow>
   TabFocus \<Rightarrow> ('z EditorLayoutInfo_scheme, 'f FontInfo_scheme) CommonEditorConfiguration \<Rightarrow>
   ('z EditorLayoutInfo_scheme, 'f FontInfo_scheme) CommonEditorConfiguration \<times> effect list" where
  "recomputeOptions ext surf shared this =
     (case computeInternalOptions ext surf shared this of
        Inl e \<Rightarrow> (this, [Recompute, Throw e])
      | Inr newOptions \<Rightarrow>
          (let r = setOptions newOptions this in (fst r, Recompute # snd r)))"

definition setIsDominatedByLongLines ::
  "(IEditorLayoutProviderOpts, 'z EditorLayoutInfo_scheme) externals \<Rightarrow> ('b, 'f FontInfo_scheme) surface \<Rightarrow>
   TabFocus \<Rightarrow> bool \<Rightarrow> ('z EditorLayoutInfo_scheme, 'f FontInfo_scheme) CommonEditorConfiguration \<Rightarrow>
   ('z EditorLayoutInfo_scheme, 'f FontInfo_scheme) CommonEditorConfiguration \<times> effect list" where
  "setIsDominatedByLongLines ext surf shared dominated this =
     recomputeOptions ext surf shared (this\<lparr>isDominatedByLongLines := dominated\<rparr>)"

text \<open>
  \<^verbatim>\<open>ConfigurationWithDefaults._mergeOptionsIn\<close>, which \<^verbatim>\<open>ConfigurationWithDefaults.updateOptions\<close>
  calls, on the options record the object holds; then \<open>updateOptions\<close> of the store.
\<close>

definition mergeOptionsIn :: "('b, 'f) surface \<Rightarrow> jsvalue \<Rightarrow> IEditorOptions \<Rightarrow> IEditorOptions" where
  "mergeOptionsIn surf newOptions held =
     mixin surf held (if ToBoolean newOptions then newOptions else JSObject [])"

definition updateOptions ::
  "(IEditorLayoutProviderOpts, 'z EditorLayoutInfo_scheme) externals \<Rightarrow> ('b, 'f FontInfo_scheme) surface \<Rightarrow>
   TabFocus \<Rightarrow> jsvalue \<Rightarrow> ('z EditorLayoutInfo_scheme, 'f FontInfo_scheme) CommonEditorConfiguration \<Rightarrow>
   ('z EditorLayoutInfo_scheme, 'f FontInfo_scheme) CommonEditorConfiguration \<times> effect list" where
  "updateOptions ext surf shared newOptions this =
     recomputeOptions ext surf shared
       (this\<lparr>configWithDefaults := mergeOptionsIn surf newOptions (configWithDefaults this)\<rparr>)"

text \<open>
  \<open>setMaxLineNumber\<close> runs \<open>digitCount\<close> first: when that loop does not end, neither
  does the call (\<open>None\<close>).
\<close>

definition setMaxLineNumber ::
  "(IEditorLayoutProviderOpts, 'z EditorLayoutInfo_scheme) externals \<Rightarrow> ('b, 'f FontInfo_scheme) surface \<Rightarrow>
   TabFocus \<Rightarrow> int \<Rightarrow> ('z EditorLayoutInfo_scheme, 'f FontInfo_scheme) CommonEditorConfiguration \<Rightarrow>
   (('z EditorLayoutInfo_scheme, 'f FontInfo_scheme) CommonEditorConfiguration \<times> effect list) option" where
  "setMaxLineNumber ext surf shared maxLineNumber this =
     (case digitCount maxLineNumber of
        None \<Rightarrow> None
      | Some count \<Rightarrow>
          if lineNumbersDigitCount this = count then Some (this, [])
          else Some (recomputeOptions ext surf shared (this\<lparr>lineNumbersDigitCount := count\<rparr>)))"

section \<open>A sample configuration\<close>

text \<open>
  Concrete values at which the statements below are evaluated: the small-integer
  constants \<open>-2^30\<close> and \<open>2^30\<close>, a layout calculator that answers a viewport of 120
  columns, number primitives that are exact on the integers the sample uses, and the
  options \<^verbatim>\<open>{fontSize: 14, wordWrap: 'bounded', wordWrapColumn: 80}\<close> over
  empty scrollbar and minimap groups.
\<close>

definition sample_externals :: "(IEditorLayoutProviderOpts, EditorLayoutInfo) externals" where
  "sample_externals =
     \<lparr>MIN_SAFE_SMALL_INTEGER = Fin (- 1073741824),
      MAX_SAFE_SMALL_INTEGER = Fin 1073741824,
      minimap_enabled = False,
      minimap_renderCharacters = True,
      minimap_maxColumn = Fin 120,
      compute = (\<lambda>i. \<lparr>viewportColumn = Fin 120\<rparr>),
      parseFloat_string = parseInt_string,
      Number_toString = (\<lambda>q. Integer_toString \<lfloor>q\<rfloor>),
      number_times = (\<lambda>a b. case (a, b) of (Fin x, Fin y) \<Rightarrow> Fin (x * y) | _ \<Rightarrow> NaN),
      number_plus = (\<lambda>a b. case (a, b) of (Fin x, Fin y) \<Rightarrow> Fin (x + y) | _ \<Rightarrow> NaN)\<rparr>"

definition sample_opts :: IEditorOptions where
  "sample_opts =
     (\<lambda>name. JSUndefined)
       (''scrollbar'' := JSObject [],
        ''minimap'' := JSObject [],
        ''fontSize'' := JSNumber (Fin 14),
        ''wordWrap'' := JSString ''bounded'',
        ''wordWrapColumn'' := JSNumber (Fin 80))"

definition sample_fontInfo :: FontInfo where
  "sample_fontInfo =
     \<lparr>FontInfo.lineHeight = Fin 19, typicalHalfwidthCharacterWidth = Fin 8, maxDigitWidth = Fin 8\<rparr>"

definition sample_surface :: "(unit, FontInfo) surface" where
  "sample_surface =
     \<lparr>getEditorClassName = (\<lambda>theme fontLigatures. ''monaco-editor''),
      getOuterWidth = Fin 1000,
      getOuterHeight = Fin 600,
      getCanUseTranslate3d = True,
      getPixelRatio = Fin 1,
      readConfiguration = (\<lambda>b. sample_fontInfo),
      createFromRawSettings = (\<lambda>opts. ()),
      mixin = (\<lambda>held newOptions name.
        if property newOptions name = JSUndefined then held name else property newOptions name)\<rparr>"

text \<open>
  The snapshot of the sample options, with the long-lines flag as given, and a store in
  its stable state: it holds that snapshot for the flag off, a digit count of 1 and one
  subscriber.
\<close>

definition sample_editor :: "bool \<Rightarrow> (EditorLayoutInfo, FontInfo) InternalEditorOptions" where
  "sample_editor dominated =
     projr (fst (createInternalEditorOptions sample_externals (Fin 1000) (Fin 600) sample_opts
       sample_fontInfo ''monaco-editor'' dominated (Fin 1) True (Fin 1) TabFocus_initial))"

definition sample_store :: "(EditorLayoutInfo, FontInfo) CommonEditorConfiguration" where
  "sample_store =
     \<lparr>editor = sample_editor False,
      editorClone = clone (sample_editor False),
      configWithDefaults = sample_opts,
      isDominatedByLongLines = False,
      lineNumbersDigitCount = 1,
      onDidChange = \<lparr>listeners = [7]\<rparr>\<rparr>"

section \<open>The digit count is the number of decimal digits\<close>

lemma round_half_even_lower: "0 < b \<Longrightarrow> a div b \<le> round_half_even a b"
  by (simp add: round_half_even_def Let_def)

lemma round_half_even_upper: "0 < b \<Longrightarrow> 2 * (b * round_half_even a b) \<le> 2 * a + b"
proof -
  assume b: "0 < b"
  define q r where "q = a div b" and "r = a mod b"
  have a: "a = b * q + r" by (simp add: q_def r_def)
  have r: "0 \<le> r" using b by (simp add: r_def)
  have K: "round_half_even a b = (if b < 2 * r \<or> (2 * r = b \<and> odd q) then q + 1 else q)"
    by (simp add: round_half_even_def Let_def q_def r_def)
  have "2 * (b * round_half_even a b) \<le> 2 * (b * q + r) + b"
  proof (cases "b < 2 * r \<or> (2 * r = b \<and> odd q)")
    case True
    then have "b \<le> 2 * r" by auto
    then show ?thesis using True unfolding K by (simp add: algebra_simps)
  next
    case False
    then show ?thesis using r b unfolding K by (simp add: algebra_simps)
  qed
  also have "2 * (b * q + r) + b = 2 * a + b" using a by simp
  finally show ?thesis .
qed

lemma floor_quotient10:
  assumes "0 < n" "n < 2 ^ 53"
  shows "\<lfloor>quotient10 n\<rfloor> = n div 10"
proof -
  define L where "L = bitlen n"
  define E where "E = (if 10 * 2 ^ nat L \<le> 16 * n then L - 4 else L - 5)"
  define k where "k = nat (52 - E)"
  define K where "K = round_half_even (n * 2 ^ k) 10"
  have "nat n < 2 ^ 53" using assms by (simp add: nat_less_iff)
  then have "floorlog 2 (nat n) \<le> 53" by (simp add: floorlog_le_iff)
  then have "L \<le> 53" by (simp add: L_def bitlen_def)
  then have E: "E \<le> 49" by (simp add: E_def)
  then have k3: "3 \<le> k" by (simp add: k_def)
  have neg: "\<not> 0 \<le> E - 52" "nat (- (E - 52)) = k" using E by (simp_all add: k_def)
  have q: "quotient10 n = of_int K / 2 ^ k"
    unfolding quotient10_def Let_def L_def [symmetric] E_def [symmetric] using neg
    by (simp add: K_def)
  have p8: "(8::int) \<le> 2 ^ k"
    using power_increasing [OF k3, of "2::int"] by simp
  have lo: "(n div 10) * 2 ^ k \<le> K"
  proof -
    have "n div 10 * 10 \<le> n" by simp
    then have "(n div 10 * 10) * 2 ^ k \<le> n * 2 ^ k"
      by (intro mult_right_mono) simp_all
    then have "((n div 10) * 2 ^ k) * 10 \<le> n * 2 ^ k"
      by (simp add: algebra_simps)
    then have "(((n div 10) * 2 ^ k) * 10) div 10 \<le> (n * 2 ^ k) div 10"
      by (intro zdiv_mono1) simp_all
    then have "(n div 10) * 2 ^ k \<le> (n * 2 ^ k) div 10"
      by simp
    also have "\<dots> \<le> K" unfolding K_def by (rule round_half_even_lower) simp
    finally show ?thesis .
  qed
  have hi: "K < (n div 10 + 1) * 2 ^ k"
  proof -
    have "2 * (10 * K) \<le> 2 * (n * 2 ^ k) + 10"
      unfolding K_def by (rule round_half_even_upper) simp
    then have "10 * K \<le> n * 2 ^ k + 5" by simp
    also have "\<dots> < (n + 1) * 2 ^ k" using p8 by (simp add: algebra_simps)
    also have "\<dots> \<le> (10 * (n div 10 + 1)) * 2 ^ k"
    proof -
      have "n + 1 \<le> 10 * (n div 10 + 1)"
        by presburger
      then show ?thesis by (simp add: mult_right_mono)
    qed
    finally have "10 * K < 10 * ((n div 10 + 1) * 2 ^ k)" by (simp add: algebra_simps)
    then show ?thesis by simp
  qed
  have "\<lfloor>(of_int K :: rat) / 2 ^ k\<rfloor> = K div 2 ^ k"
    using floor_divide_of_int_eq [of K "2 ^ k", where ?'a = rat] by simp
  also have "\<dots> = n div 10"
  proof (rule int_div_pos_eq [where r = "K - 2 ^ k * (n div 10)"])
    show "K = 2 ^ k * (n div 10) + (K - 2 ^ k * (n div 10))" by simp
    show "0 \<le> K - 2 ^ k * (n div 10)" using lo by (simp add: algebra_simps)
    show "K - 2 ^ k * (n div 10) < 2 ^ k" using hi by (simp add: algebra_simps)
  qed
  finally show ?thesis by (simp add: q)
qed

lemma quotient10_positive:
  assumes "0 < n"
  shows "0 < quotient10 n"
proof -
  define L where "L = floorlog 2 (nat n)"
  define E where "E = (if 10 * 2 ^ L \<le> 16 * n then int L - 4 else int L - 5)"
  have "2 ^ (L - 1) \<le> nat n"
    unfolding L_def using floorlog_bounds [of "nat n" 2] assms by simp
  then have "int (2 ^ (L - 1)) \<le> n" using assms by linarith
  then have low: "2 ^ (L - 1) \<le> n" by simp
  have L1: "1 \<le> L" unfolding L_def using assms by (simp add: floorlog_def)
  have E: "E \<le> int L - 4" by (simp add: E_def)
  have unfold: "quotient10 n =
      (if 0 \<le> E - 52 then of_int (round_half_even n (10 * 2 ^ nat (E - 52)) * 2 ^ nat (E - 52))
       else of_int (round_half_even (n * 2 ^ nat (- (E - 52))) 10) / 2 ^ nat (- (E - 52)))"
    by (simp add: quotient10_def Let_def bitlen_def L_def E_def)
  show ?thesis
  proof (cases "0 \<le> E - 52")
    case True
    define e where "e = nat (E - 52)"
    define K where "K = round_half_even n (10 * 2 ^ e)"
    have q: "quotient10 n = of_int (K * 2 ^ e)"
      unfolding unfold using True by (simp add: K_def e_def)
    have "e + 4 \<le> L - 1" using True E by (simp add: e_def)
    then have "(2::int) ^ (e + 4) \<le> 2 ^ (L - 1)" by (intro power_increasing) simp_all
    from this low have "2 ^ (e + 4) \<le> n" by (rule order_trans)
    then have "16 * 2 ^ e \<le> n" by (simp add: power_add mult.commute)
    moreover have "(10::int) * 2 ^ e \<le> 16 * 2 ^ e" by simp
    ultimately have "10 * 2 ^ e \<le> n" by linarith
    then have "0 < n div (10 * 2 ^ e)" by (simp add: pos_imp_zdiv_pos_iff)
    also have "\<dots> \<le> K" unfolding K_def by (rule round_half_even_lower) simp
    finally have "0 < K" .
    then have "0 < K * 2 ^ e" by simp
    then show ?thesis unfolding q by (simp only: of_int_0_less_iff)
  next
    case False
    define k where "k = nat (- (E - 52))"
    define K where "K = round_half_even (n * 2 ^ k) 10"
    have q: "quotient10 n = of_int K / 2 ^ k"
      unfolding unfold using False by (simp add: K_def k_def)
    have "4 \<le> (L - 1) + k" using E L1 False by (simp add: k_def)
    then have "(2::int) ^ 4 \<le> 2 ^ ((L - 1) + k)" by (intro power_increasing) simp_all
    also have "\<dots> = 2 ^ (L - 1) * 2 ^ k" by (simp add: power_add)
    also have "\<dots> \<le> n * 2 ^ k" using low by (intro mult_right_mono) simp_all
    finally have "10 \<le> n * 2 ^ k" by simp
    then have "0 < (n * 2 ^ k) div 10" by (simp add: pos_imp_zdiv_pos_iff)
    also have "\<dots> \<le> K" unfolding K_def by (rule round_half_even_lower) simp
    finally have "0 < K" .
    then show ?thesis unfolding q by simp
  qed
qed

lemma floor_divide10_small: "0 \<le> n \<Longrightarrow> n < 2 ^ 53 \<Longrightarrow> \<lfloor>divide10 n\<rfloor> = n div 10"
  using floor_quotient10 [of n] by (cases "n = 0") (simp_all add: divide10_def)

lemma floor_divide10_negative: "n < 0 \<Longrightarrow> \<lfloor>divide10 n\<rfloor> < 0"
  using quotient10_positive [of "- n"] by (simp add: divide10_def floor_less_iff)

lemma digitCount_loop_nonneg:
  "0 \<le> n \<Longrightarrow> n < 2 ^ 53 \<Longrightarrow> digitCount_loop n r = Some (r + floorlog 10 (nat n))"
proof (induction "nat n" arbitrary: n r rule: less_induct)
  case less
  show ?case
  proof (cases "n = 0")
    case True
    then show ?thesis by (simp add: digitCount_loop.simps floorlog_def)
  next
    case False
    with less.prems have pos: "0 < n" by simp
    then have "nat (n div 10) < nat n" by (simp add: nat_less_iff)
    moreover have "0 \<le> n div 10" using pos by simp
    moreover have "n div 10 < 2 ^ 53"
    proof -
      have "n div 10 \<le> n" using pos by presburger
      with less.prems show ?thesis by simp
    qed
    ultimately have ih:
      "digitCount_loop (n div 10) (r + 1) = Some (r + 1 + floorlog 10 (nat (n div 10)))"
      using less.hyps by blast
    have step: "\<lfloor>divide10 n\<rfloor> = n div 10"
      using less.prems by (intro floor_divide10_small) simp_all
    have "floorlog 10 (nat n) = floorlog 10 (nat n div 10) + 1"
      using pos by (subst compute_floorlog) simp
    moreover have "nat n div 10 = nat (n div 10)" using pos by (simp add: nat_div_distrib)
    ultimately show ?thesis using False ih step by (subst digitCount_loop.simps) simp
  qed
qed

lemma digitCount_loop_returns_nonneg:
  assumes "digitCount_loop n r = Some y"
  shows "0 \<le> n"
proof (rule digitCount_loop.raw_induct [where P = "\<lambda>n r y. 0 \<le> n", OF _ assms])
  fix loop :: "int \<Rightarrow> nat \<Rightarrow> nat option" and n r y
  assume ih: "\<And>n r y. loop n r = Some y \<Longrightarrow> 0 \<le> n"
    and step: "(if n \<noteq> 0 then loop \<lfloor>divide10 n\<rfloor> (r + 1) else Some r) = Some y"
  show "0 \<le> n"
  proof (cases "n = 0")
    case True
    then show ?thesis by simp
  next
    case False
    with step have "loop \<lfloor>divide10 n\<rfloor> (r + 1) = Some y" by simp
    then have "0 \<le> \<lfloor>divide10 n\<rfloor>" by (rule ih)
    then show ?thesis using floor_divide10_negative [of n] by (cases "n < 0") simp_all
  qed
qed

lemma digitCount_nonneg:
  assumes "0 \<le> n" "n < 2 ^ 53"
  shows "digitCount n = Some (if n = 0 then 1 else floorlog 10 (nat n))"
proof (cases "n = 0")
  case True
  then show ?thesis by (simp add: digitCount_def digitCount_loop.simps)
next
  case False
  with assms have "0 < floorlog 10 (nat n)" by (simp add: floorlog_def)
  with assms False show ?thesis by (simp add: digitCount_def digitCount_loop_nonneg)
qed

lemma digitCount_negative: "n < 0 \<Longrightarrow> digitCount n = None"
  using digitCount_loop_returns_nonneg [of n 0]
  by (cases "digitCount_loop n 0") (auto simp: digitCount_def)

text \<open>
  Claim C10, as amended. For every integer \<open>n\<close> with \<open>0 \<le> n < 2^53\<close>, the integers that a
  double holds exactly, the digit-count helper of \<open>setMaxLineNumber\<close> returns, and its
  result is the number of decimal digits of \<open>n\<close>: 1 for \<open>n = 0\<close> and \<open>\<lfloor>log\<^sub>1\<^sub>0 n\<rfloor> + 1\<close> for
  \<open>n \<ge> 1\<close>. The lower bound is needed: on a negative integer the loop never ends.
\<close>

theorem digitCount_counts_decimal_digits:
  "(0 \<le> n \<and> n < 2 ^ 53 \<longrightarrow>
      digitCount n = Some (if n = 0 then 1 else nat \<lfloor>log 10 (real_of_int n)\<rfloor> + 1)) \<and>
   (n < 0 \<longrightarrow> digitCount n = None)"
proof (intro conjI impI)
  assume n: "0 \<le> n \<and> n < 2 ^ 53"
  show "digitCount n = Some (if n = 0 then 1 else nat \<lfloor>log 10 (real_of_int n)\<rfloor> + 1)"
  proof (cases "n = 0")
    case True
    then show ?thesis using digitCount_nonneg [of n] by simp
  next
    case False
    with n have "0 < n" by simp
    then have "floorlog 10 (nat n) = nat \<lfloor>log 10 (real_of_int n)\<rfloor> + 1"
      by (simp add: floorlog_def)
    then show ?thesis using digitCount_nonneg [of n] n False by simp
  qed
next
  assume "n < 0"
  then show "digitCount n = None" by (rule digitCount_negative)
qed

theorem digitCount_counts_decimal_digits_witness:
  "(0::int) \<le> 1000 \<and> (1000::int) < 2 ^ 53 \<and>
   digitCount 1000 = Some (nat \<lfloor>log 10 (real_of_int 1000)\<rfloor> + 1) \<and>
   digitCount 1000 = Some 4 \<and> digitCount 0 = Some 1 \<and>
   (- 7 :: int) < 0 \<and> digitCount (- 7) = None"
proof -
  have a: "digitCount 1000 = Some (nat \<lfloor>log 10 (real_of_int 1000)\<rfloor> + 1)"
    using digitCount_counts_decimal_digits [of 1000] by simp
  have b: "digitCount 0 = Some 1"
    using digitCount_counts_decimal_digits [of 0] by simp
  have c: "digitCount (- 7) = None"
    using digitCount_counts_decimal_digits [of "- 7"] by simp
  have d: "digitCount 1000 = Some 4" by code_simp
  from a b c d show ?thesis by simp
qed

text \<open>
  Beyond \<open>2^53\<close> the quotient is rounded and the count can be off: the double
  \<open>99999999999999991611392\<close> has 23 decimal digits, its tenth rounds up to \<open>10^22\<close>, and the
  helper returns 24.
\<close>

theorem digitCount_overcounts_a_large_double:
  "(0::int) \<le> 99999999999999991611392 \<and>
   \<lfloor>divide10 99999999999999991611392\<rfloor> = 10 ^ 22 \<and>
   digitCount 99999999999999991611392 = Some 24 \<and>
   nat \<lfloor>log 10 (real_of_int 99999999999999991611392)\<rfloor> + 1 = 23 \<and>
   digitCount 99999999999999991611392 \<noteq>
     Some (nat \<lfloor>log 10 (real_of_int 99999999999999991611392)\<rfloor> + 1)"
proof -
  have q: "\<lfloor>divide10 99999999999999991611392\<rfloor> = 10 ^ 22" by code_simp
  have c: "digitCount 99999999999999991611392 = Some 24" by code_simp
  have "floorlog 10 99999999999999991611392 = 23"
    by (simp add: compute_floorlog)
  then have l: "nat \<lfloor>log 10 (real_of_int 99999999999999991611392)\<rfloor> + 1 = 23"
    by (simp add: floorlog_def)
  from q c l show ?thesis by simp
qed

section \<open>The integer coercer\<close>

lemma parseInt_string_cases:
  "parseInt_string s = NaN \<or> (\<exists>n. parseInt_string s = Fin (of_int n))"
  by (simp only: parseInt_string_def Let_def split: if_split) blast

lemma wrap32_range: "- (2 ^ 31) \<le> wrap32 i \<and> wrap32 i < 2 ^ 31"
proof -
  have "0 \<le> i mod 2 ^ 32" "i mod 2 ^ 32 < 2 ^ 32" by simp_all
  then show ?thesis by (auto simp: wrap32_def Let_def)
qed

lemma wrap32_id: "- (2 ^ 31) \<le> i \<Longrightarrow> i < 2 ^ 31 \<Longrightarrow> wrap32 i = i"
proof -
  assume lo: "- (2 ^ 31) \<le> i" and hi: "i < 2 ^ 31"
  show ?thesis
  proof (cases "0 \<le> i")
    case True
    with hi have "i mod 2 ^ 32 = i" by (simp add: mod_pos_pos_trivial)
    with hi show ?thesis by (simp add: wrap32_def Let_def)
  next
    case False
    with lo have "(i + 2 ^ 32) mod 2 ^ 32 = i + 2 ^ 32"
      by (intro mod_pos_pos_trivial) simp_all
    then have "i mod 2 ^ 32 = i + 2 ^ 32" by simp
    with False lo show ?thesis by (simp add: wrap32_def Let_def)
  qed
qed

lemma trunc_of_int: "trunc (of_int i) = i"
  by (simp add: trunc_def flip: of_int_minus)

lemma ToInt32_range: "- (2 ^ 31) \<le> ToInt32 x \<and> ToInt32 x < 2 ^ 31"
  using wrap32_range by (cases x) (simp_all add: ToInt32_def)

lemma ToInt32_of_int32: "- (2 ^ 31) \<le> i \<Longrightarrow> i < 2 ^ 31 \<Longrightarrow> ToInt32 (of_int32 i) = i"
  by (simp add: ToInt32_def of_int32_def trunc_of_int wrap32_id)

lemma Math_max_int: "Math_max (Fin (of_int a)) (Fin (of_int r)) = Fin (of_int (max a r))"
  by (simp add: Math_max_def isNaN_def max_def)

lemma Math_min_int: "Math_min (Fin (of_int b)) (Fin (of_int r)) = Fin (of_int (min b r))"
  by (simp add: Math_min_def isNaN_def min_def)

lemma toInteger_int_bounds:
  assumes "- (2 ^ 31) \<le> a" "a < 2 ^ 31" "- (2 ^ 31) \<le> b" "b < 2 ^ 31"
  shows "toInteger ext source (Some (of_int32 a)) (Some (of_int32 b)) =
         min b (max a (case parsedInteger ext source of None \<Rightarrow> 0 | Some n \<Rightarrow> n))"
proof -
  define r where "r = (case parsedInteger ext source of None \<Rightarrow> 0 | Some n \<Rightarrow> n)"
  have r: "(if isNaN (parseInt ext source) then Fin 0 else parseInt ext source) = Fin (of_int r)"
    using parseInt_string_cases [of "ToString ext source"]
    by (auto simp: r_def parsedInteger_def parseInt_def isNaN_def)
  have "toInteger ext source (Some (of_int32 a)) (Some (of_int32 b)) =
        ToInt32 (of_int32 (min b (max a r)))"
    by (simp add: toInteger_def Let_def r of_int32_def Math_max_int Math_min_int)
  also have "\<dots> = min b (max a r)"
    using assms by (intro ToInt32_of_int32) (auto simp: min_def max_def)
  finally show ?thesis by (simp add: r_def)
qed

lemma parsedInteger_examples:
  "parsedInteger ext (JSString ''9999999999999999'') = Some 9999999999999999"
  "parsedInteger ext (JSString ''abc'') = None"
  by (simp_all add: parsedInteger_def parseInt_def parseInt_string_def isStrWhiteSpaceChar_def
      isDigit_def digitValue_def)

text \<open>
  Claim C4. \<open>toInteger\<close> reads the value as a base-10 integer and takes 0 when there is
  none; it clamps first from below with \<open>min\<close>, then from above with \<open>max\<close>, so the upper
  bound wins when the bounds cross; its result is a signed 32-bit integer; an omitted
  bound is the small-integer constant. For bounds that are 32-bit integers the result is
  \<open>min b (max a r)\<close>; \<open>toInteger("9999999999999999", 0, 100) = 100\<close> and
  \<open>toInteger("abc", 5, 10) = 5\<close>.
\<close>

theorem toInteger_parses_clamps_truncates:
  "(- (2 ^ 31) \<le> toInteger ext source lo hi \<and> toInteger ext source lo hi < 2 ^ 31) \<and>
   (- (2 ^ 31) \<le> a \<and> a < 2 ^ 31 \<and> - (2 ^ 31) \<le> b \<and> b < 2 ^ 31 \<longrightarrow>
      toInteger ext source (Some (of_int32 a)) (Some (of_int32 b)) =
        min b (max a (case parsedInteger ext source of None \<Rightarrow> 0 | Some n \<Rightarrow> n)) \<and>
      (a \<le> b \<longrightarrow>
         a \<le> toInteger ext source (Some (of_int32 a)) (Some (of_int32 b)) \<and>
         toInteger ext source (Some (of_int32 a)) (Some (of_int32 b)) \<le> b) \<and>
      (b < a \<longrightarrow> toInteger ext source (Some (of_int32 a)) (Some (of_int32 b)) = b)) \<and>
   toInteger ext source None None =
     toInteger ext source (Some (MIN_SAFE_SMALL_INTEGER ext)) (Some (MAX_SAFE_SMALL_INTEGER ext)) \<and>
   toInteger ext (JSString ''9999999999999999'') (Some (of_int32 0)) (Some (of_int32 100)) = 100 \<and>
   toInteger ext (JSString ''abc'') (Some (of_int32 5)) (Some (of_int32 10)) = 5"
proof (intro conjI impI)
  show "- (2 ^ 31) \<le> toInteger ext source lo hi" "toInteger ext source lo hi < 2 ^ 31"
    using ToInt32_range by (simp_all add: toInteger_def Let_def)
next
  assume "- (2 ^ 31) \<le> a \<and> a < 2 ^ 31 \<and> - (2 ^ 31) \<le> b \<and> b < 2 ^ 31"
  then have eq: "toInteger ext source (Some (of_int32 a)) (Some (of_int32 b)) =
      min b (max a (case parsedInteger ext source of None \<Rightarrow> 0 | Some n \<Rightarrow> n))"
    by (intro toInteger_int_bounds) simp_all
  show "toInteger ext source (Some (of_int32 a)) (Some (of_int32 b)) =
      min b (max a (case parsedInteger ext source of None \<Rightarrow> 0 | Some n \<Rightarrow> n))"
    by (rule eq)
  { assume "a \<le> b"
    then show "a \<le> toInteger ext source (Some (of_int32 a)) (Some (of_int32 b))"
      and "toInteger ext source (Some (of_int32 a)) (Some (of_int32 b)) \<le> b"
      unfolding eq by simp_all }
  { assume "b < a"
    then show "toInteger ext source (Some (of_int32 a)) (Some (of_int32 b)) = b"
      unfolding eq by simp }
next
  show "toInteger ext source None None =
     toInteger ext source (Some (MIN_SAFE_SMALL_INTEGER ext)) (Some (MAX_SAFE_SMALL_INTEGER ext))"
    by (simp add: toInteger_def)
next
  show "toInteger ext (JSString ''9999999999999999'') (Some (of_int32 0)) (Some (of_int32 100)) = 100"
    by (subst toInteger_int_bounds) (simp_all add: parsedInteger_examples)
  show "toInteger ext (JSString ''abc'') (Some (of_int32 5)) (Some (of_int32 10)) = 5"
    by (subst toInteger_int_bounds) (simp_all add: parsedInteger_examples)
qed

theorem toInteger_parses_clamps_truncates_witness:
  "- (2 ^ 31) \<le> (7::int) \<and> (7::int) < 2 ^ 31 \<and> - (2 ^ 31) \<le> (3::int) \<and> (3::int) < 2 ^ 31 \<and>
   toInteger sample_externals (JSString ''12px'') (Some (of_int32 0)) (Some (of_int32 100)) = 12 \<and>
   toInteger sample_externals (JSString ''12px'') (Some (of_int32 7)) (Some (of_int32 3)) = 3 \<and>
   toInteger sample_externals (JSString ''-5'') (Some (of_int32 0)) (Some (of_int32 100)) = 0"
proof -
  have p: "parsedInteger sample_externals (JSString ''12px'') = Some 12"
    "parsedInteger sample_externals (JSString ''-5'') = Some (- 5)"
    by (simp_all add: parsedInteger_def parseInt_def parseInt_string_def isStrWhiteSpaceChar_def
        isDigit_def digitValue_def)
  show ?thesis
    using toInteger_parses_clamps_truncates
            [of sample_externals "JSString ''12px''" None None 0 100]
          toInteger_parses_clamps_truncates
            [of sample_externals "JSString ''12px''" None None 7 3]
          toInteger_parses_clamps_truncates
            [of sample_externals "JSString ''-5''" None None 0 100]
    by (simp add: p)
qed

section \<open>The sorted integer array\<close>

text \<open>
  Claim C3. \<open>toSortedIntegerArray\<close> returns the empty array for a value that is not an
  array and, for \<open>[3, "1", 2]\<close>, the array \<open>[1, 2, 3]\<close>; but the elements are ordered by
  their decimal texts, not by their values: for the rulers \<open>[80, 120]\<close> the result is
  \<open>[120, 80]\<close>.
\<close>

theorem toSortedIntegerArray_sorts_by_text:
  "toSortedIntegerArray sample_externals (JSArray [JSNumber (Fin 80), JSNumber (Fin 120)]) = [120, 80] \<and>
   toSortedIntegerArray sample_externals (JSArray [JSNumber (Fin 3), JSString ''1'', JSNumber (Fin 2)]) = [1, 2, 3] \<and>
   toSortedIntegerArray sample_externals (JSString ''80'') = []"
  by code_simp


section \<open>The shared toggles\<close>

text \<open>
  Claim C6. Each of the two shared toggles starts at false. Setting it to the value it
  holds changes nothing and notifies nobody; setting it to the other value stores that
  value, notifies every current subscriber once with it, in subscription order, and a
  following read returns it. So two calls of \<open>set(true)\<close> in a row, from false, notify each
  subscriber once.
\<close>

theorem shared_toggles_notify_on_change_only:
  "getTabFocusMode TabFocus_initial = False \<and>
   getValue GlobalScreenReaderNVDA_initial = False \<and>
   (getTabFocusMode t = v \<longrightarrow> setTabFocusMode v t = (t, [])) \<and>
   (getTabFocusMode t \<noteq> v \<longrightarrow>
      setTabFocusMode v t =
        (t\<lparr>tabFocus := v\<rparr>, map (\<lambda>l. (l, v)) (listeners (onDidChangeTabFocus t))) \<and>
      getTabFocusMode (fst (setTabFocusMode v t)) = v) \<and>
   (getTabFocusMode t = False \<longrightarrow>
      snd (setTabFocusMode True t) @ snd (setTabFocusMode True (fst (setTabFocusMode True t))) =
        map (\<lambda>l. (l, True)) (listeners (onDidChangeTabFocus t))) \<and>
   (getValue g = v \<longrightarrow> setValue v g = (g, [])) \<and>
   (getValue g \<noteq> v \<longrightarrow>
      setValue v g = (g\<lparr>nvda_value := v\<rparr>, map (\<lambda>l. (l, v)) (listeners (onChange g))) \<and>
      getValue (fst (setValue v g)) = v) \<and>
   (getValue g = False \<longrightarrow>
      snd (setValue True g) @ snd (setValue True (fst (setValue True g))) =
        map (\<lambda>l. (l, True)) (listeners (onChange g)))"
  by (simp add: getTabFocusMode_def setTabFocusMode_def TabFocus_initial_def fire_def
      getValue_def setValue_def GlobalScreenReaderNVDA_initial_def Let_def)

theorem shared_toggles_notify_on_change_only_witness:
  "getTabFocusMode (TabFocus_initial\<lparr>onDidChangeTabFocus := subscribe 2 (subscribe 1 \<lparr>listeners = []\<rparr>)\<rparr>) = False \<and>
   snd (setTabFocusMode True
          (TabFocus_initial\<lparr>onDidChangeTabFocus := subscribe 2 (subscribe 1 \<lparr>listeners = []\<rparr>)\<rparr>)) =
     [(1, True), (2, True)] \<and>
   snd (setTabFocusMode True (fst (setTabFocusMode True
          (TabFocus_initial\<lparr>onDidChangeTabFocus := subscribe 2 (subscribe 1 \<lparr>listeners = []\<rparr>)\<rparr>)))) = [] \<and>
   getValue (GlobalScreenReaderNVDA_initial\<lparr>onChange := subscribe 5 \<lparr>listeners = []\<rparr>\<rparr>) = False \<and>
   snd (setValue True (GlobalScreenReaderNVDA_initial\<lparr>onChange := subscribe 5 \<lparr>listeners = []\<rparr>\<rparr>)) =
     [(5, True)] \<and>
   snd (setValue True (fst (setValue True
          (GlobalScreenReaderNVDA_initial\<lparr>onChange := subscribe 5 \<lparr>listeners = []\<rparr>\<rparr>)))) = []"
  using shared_toggles_notify_on_change_only
    [where t = "TabFocus_initial\<lparr>onDidChangeTabFocus := subscribe 2 (subscribe 1 \<lparr>listeners = []\<rparr>)\<rparr>"
       and v = True
       and g = "GlobalScreenReaderNVDA_initial\<lparr>onChange := subscribe 5 \<lparr>listeners = []\<rparr>\<rparr>"]
    shared_toggles_notify_on_change_only
    [where t = "fst (setTabFocusMode True (TabFocus_initial\<lparr>onDidChangeTabFocus := subscribe 2 (subscribe 1 \<lparr>listeners = []\<rparr>)\<rparr>))"
       and v = True
       and g = "fst (setValue True (GlobalScreenReaderNVDA_initial\<lparr>onChange := subscribe 5 \<lparr>listeners = []\<rparr>\<rparr>))"]
  by (simp add: TabFocus_initial_def GlobalScreenReaderNVDA_initial_def subscribe_def
      getTabFocusMode_def getValue_def)


section \<open>Properties of the option normalizer\<close>

subsection \<open>What a pass returns\<close>

lemma create_Inr:
  assumes "sanitizeScrollbarOpts ext (opts ''scrollbar'')
             (toFloat ext (opts ''mouseWheelScrollSensitivity'') (Fin 1)) = Inr sb"
    and "sanitizeMinimapOpts ext (opts ''minimap'') = Inr mm"
  shows "createInternalEditorOptions ext w h opts f c d n t p shared =
    (Inr \<lparr>lineHeight = FontInfo.lineHeight f,
          readOnly = toBoolean (opts ''readOnly''),
          wordSeparators = ToString ext (opts ''wordSeparators''),
          autoClosingBrackets = toBoolean (opts ''autoClosingBrackets''),
          useTabStops = toBoolean (opts ''useTabStops''),
          tabFocusMode = (if toBoolean (opts ''readOnly'') then True else getTabFocusMode shared),
          dragAndDrop = toBoolean (opts ''dragAndDrop''),
          layoutInfo = compute ext (layoutInput ext w h opts f n p sb mm),
          fontInfo = f,
          viewInfo = viewInfo_block ext opts c t sb mm,
          wrappingInfo =
            \<lparr>isViewportWrapping =
               fst (bareWrappingInfo ext opts d (compute ext (layoutInput ext w h opts f n p sb mm))),
             wrappingColumn =
               snd (bareWrappingInfo ext opts d (compute ext (layoutInput ext w h opts f n p sb mm))),
             wrappingIndent = wrappingIndentFromString (opts ''wrappingIndent''),
             wordWrapBreakBeforeCharacters = ToString ext (opts ''wordWrapBreakBeforeCharacters''),
             wordWrapBreakAfterCharacters = ToString ext (opts ''wordWrapBreakAfterCharacters''),
             wordWrapBreakObtrusiveCharacters =
               ToString ext (opts ''wordWrapBreakObtrusiveCharacters'')\<rparr>,
          contribInfo = contribInfo_block ext opts\<rparr>,
     shared)"
  using assms by (simp add: createInternalEditorOptions_def Let_def)

lemma create_Inr_elim:
  assumes "fst (createInternalEditorOptions ext w h opts f c d n t p shared) = Inr snap"
  obtains sb mm where
    "sanitizeScrollbarOpts ext (opts ''scrollbar'')
       (toFloat ext (opts ''mouseWheelScrollSensitivity'') (Fin 1)) = Inr sb"
    "sanitizeMinimapOpts ext (opts ''minimap'') = Inr mm"
proof (cases "sanitizeScrollbarOpts ext (opts ''scrollbar'')
       (toFloat ext (opts ''mouseWheelScrollSensitivity'') (Fin 1))")
  case (Inl e)
  with assms show ?thesis by (simp add: createInternalEditorOptions_def)
next
  case sb: (Inr sb)
  show ?thesis
  proof (cases "sanitizeMinimapOpts ext (opts ''minimap'')")
    case (Inl e)
    with assms sb show ?thesis by (simp add: createInternalEditorOptions_def)
  next
    case (Inr mm)
    with sb that show ?thesis by blast
  qed
qed

lemma create_leaves_toggle:
  "snd (createInternalEditorOptions ext w h opts f c d n t p shared) = shared"
  by (simp add: createInternalEditorOptions_def Let_def split: sum.splits)

lemma create_tabFocusMode:
  assumes "fst (createInternalEditorOptions ext w h opts f c d n t p shared) = Inr snap"
  shows "tabFocusMode snap = (toBoolean (opts ''readOnly'') \<or> getTabFocusMode shared)"
proof -
  from assms obtain sb mm where s:
    "sanitizeScrollbarOpts ext (opts ''scrollbar'')
       (toFloat ext (opts ''mouseWheelScrollSensitivity'') (Fin 1)) = Inr sb"
    "sanitizeMinimapOpts ext (opts ''minimap'') = Inr mm"
    by (rule create_Inr_elim)
  from assms show ?thesis unfolding create_Inr [OF s] by (auto split: if_splits)
qed

lemma create_wrapping:
  assumes "fst (createInternalEditorOptions ext w h opts f c d n t p shared) = Inr snap"
  shows "(isViewportWrapping (wrappingInfo snap), wrappingColumn (wrappingInfo snap)) =
         bareWrappingInfo ext opts d (layoutInfo snap)"
proof -
  from assms obtain sb mm where s:
    "sanitizeScrollbarOpts ext (opts ''scrollbar'')
       (toFloat ext (opts ''mouseWheelScrollSensitivity'') (Fin 1)) = Inr sb"
    "sanitizeMinimapOpts ext (opts ''minimap'') = Inr mm"
    by (rule create_Inr_elim)
  from assms show ?thesis unfolding create_Inr [OF s] by auto
qed

lemma create_toggle_value:
  assumes "getTabFocusMode s1 = getTabFocusMode s2 \<or> toBoolean (opts ''readOnly'')"
  shows "fst (createInternalEditorOptions ext w h opts f c d n t p s1) =
         fst (createInternalEditorOptions ext w h opts f c d n t p s2)"
proof (cases "sanitizeScrollbarOpts ext (opts ''scrollbar'')
       (toFloat ext (opts ''mouseWheelScrollSensitivity'') (Fin 1))")
  case (Inl e)
  then show ?thesis by (simp add: createInternalEditorOptions_def)
next
  case sb: (Inr sb)
  show ?thesis
  proof (cases "sanitizeMinimapOpts ext (opts ''minimap'')")
    case (Inl e)
    with sb show ?thesis by (simp add: createInternalEditorOptions_def)
  next
    case (Inr mm)
    show ?thesis unfolding create_Inr [OF sb Inr] using assms by (auto split: if_splits)
  qed
qed

subsection \<open>Legacy booleans\<close>





subsection \<open>Read-only editors\<close>

text \<open>
  Claim C5. In every pass whose \<open>readOnly\<close> option coerces to true, a snapshot that the pass
  returns has \<open>tabFocusMode\<close> true, whatever the shared tab-focus toggle holds, and the
  pass leaves the toggle as it was: a read of it afterwards returns the value it had.
\<close>

theorem readOnly_forces_tabFocusMode:
  assumes "toBoolean (opts ''readOnly'')"
  shows "snd (createInternalEditorOptions ext w h opts f c d n t p shared) = shared \<and>
         getTabFocusMode (snd (createInternalEditorOptions ext w h opts f c d n t p shared)) =
           getTabFocusMode shared \<and>
         (case fst (createInternalEditorOptions ext w h opts f c d n t p shared) of
            Inl e \<Rightarrow> True
          | Inr snap \<Rightarrow> tabFocusMode snap)"
  using assms create_tabFocusMode [of ext w h opts f c d n t p shared]
  by (simp add: create_leaves_toggle split: sum.splits)

theorem readOnly_forces_tabFocusMode_witness:
  "toBoolean ((sample_opts(''readOnly'' := JSBoolean True)) ''readOnly'') \<and>
   getTabFocusMode TabFocus_initial = False \<and>
   snd (createInternalEditorOptions sample_externals (Fin 1000) (Fin 600)
          (sample_opts(''readOnly'' := JSBoolean True)) sample_fontInfo ''monaco-editor'' False
          (Fin 1) True (Fin 1) TabFocus_initial) = TabFocus_initial \<and>
   (case fst (createInternalEditorOptions sample_externals (Fin 1000) (Fin 600)
          (sample_opts(''readOnly'' := JSBoolean True)) sample_fontInfo ''monaco-editor'' False
          (Fin 1) True (Fin 1) TabFocus_initial) of
      Inl e \<Rightarrow> False
    | Inr snap \<Rightarrow> tabFocusMode snap)"
proof -
  have h: "toBoolean ((sample_opts(''readOnly'' := JSBoolean True)) ''readOnly'')"
    by (simp add: toBoolean_def)
  have r: "(case fst (createInternalEditorOptions sample_externals (Fin 1000) (Fin 600)
          (sample_opts(''readOnly'' := JSBoolean True)) sample_fontInfo ''monaco-editor'' False
          (Fin 1) True (Fin 1) TabFocus_initial) of
      Inl e \<Rightarrow> False | Inr snap \<Rightarrow> True)"
    by code_simp
  have i: "getTabFocusMode TabFocus_initial = False"
    by (simp add: getTabFocusMode_def TabFocus_initial_def)
  from readOnly_forces_tabFocusMode
      [where opts = "sample_opts(''readOnly'' := JSBoolean True)" and ext = sample_externals
         and w = "Fin 1000" and h = "Fin 600" and f = sample_fontInfo and c = "''monaco-editor''"
         and d = False and n = "Fin 1" and t = True and p = "Fin 1" and shared = TabFocus_initial,
       OF h] h r i
  show ?thesis by (simp split: sum.splits)
qed

subsection \<open>What a pass depends on\<close>

text \<open>
  Claim C9, as amended. Normalization is deterministic given its inputs and the value of
  the shared tab-focus toggle, which the pass reads: two passes over the same raw
  options, measurements, font info, class name and flags return the same result
  whenever the toggle holds the same value in both (whatever else differs in the shared
  state), and also whenever the \<open>readOnly\<close> option coerces to true.
\<close>

theorem normalization_reads_toggle_value_only:
  assumes "getTabFocusMode sharedA = getTabFocusMode sharedB \<or> toBoolean (opts ''readOnly'')"
  shows "fst (createInternalEditorOptions ext w h opts f c d n t p sharedA) =
         fst (createInternalEditorOptions ext w h opts f c d n t p sharedB)"
  using assms by (rule create_toggle_value)

theorem normalization_reads_toggle_value_only_witness:
  "(getTabFocusMode TabFocus_initial =
      getTabFocusMode (TabFocus_initial\<lparr>onDidChangeTabFocus := subscribe 1 \<lparr>listeners = []\<rparr>\<rparr>) \<or>
    toBoolean (sample_opts ''readOnly'')) \<and>
   TabFocus_initial \<noteq> TabFocus_initial\<lparr>onDidChangeTabFocus := subscribe 1 \<lparr>listeners = []\<rparr>\<rparr> \<and>
   fst (createInternalEditorOptions sample_externals (Fin 1000) (Fin 600) sample_opts
          sample_fontInfo ''monaco-editor'' False (Fin 1) True (Fin 1) TabFocus_initial) =
   fst (createInternalEditorOptions sample_externals (Fin 1000) (Fin 600) sample_opts
          sample_fontInfo ''monaco-editor'' False (Fin 1) True (Fin 1)
          (TabFocus_initial\<lparr>onDidChangeTabFocus := subscribe 1 \<lparr>listeners = []\<rparr>\<rparr>))"
proof -
  have h: "getTabFocusMode TabFocus_initial =
      getTabFocusMode (TabFocus_initial\<lparr>onDidChangeTabFocus := subscribe 1 \<lparr>listeners = []\<rparr>\<rparr>) \<or>
    toBoolean (sample_opts ''readOnly'')"
    by (simp add: getTabFocusMode_def)
  have d: "TabFocus_initial \<noteq> TabFocus_initial\<lparr>onDidChangeTabFocus := subscribe 1 \<lparr>listeners = []\<rparr>\<rparr>"
    by (simp add: TabFocus_initial_def subscribe_def)
  from normalization_reads_toggle_value_only
      [where opts = sample_opts and sharedA = TabFocus_initial
         and sharedB = "TabFocus_initial\<lparr>onDidChangeTabFocus := subscribe 1 \<lparr>listeners = []\<rparr>\<rparr>"
         and ext = sample_externals and w = "Fin 1000" and h = "Fin 600" and f = sample_fontInfo
         and c = "''monaco-editor''" and d = False and n = "Fin 1" and t = True and p = "Fin 1",
       OF h] h d
  show ?thesis by simp
qed

theorem normalization_depends_on_shared_toggle:
  "fst (createInternalEditorOptions sample_externals (Fin 1000) (Fin 600) sample_opts
          sample_fontInfo ''monaco-editor'' False (Fin 1) True (Fin 1) TabFocus_initial) \<noteq>
   fst (createInternalEditorOptions sample_externals (Fin 1000) (Fin 600) sample_opts
          sample_fontInfo ''monaco-editor'' False (Fin 1) True (Fin 1)
          (TabFocus_initial\<lparr>tabFocus := True\<rparr>))"
  by code_simp

subsection \<open>Word wrap\<close>

text \<open>
  Claim C2, as amended. In every pass that returns a snapshot, wrapping is resolved in
  this order, where \<open>viewport\<close> is the larger of 1 and the viewport column of the computed
  layout and \<open>column\<close> is \<open>toInteger(wordWrapColumn, 1)\<close>, the configured column read as an
  integer and raised to at least 1: if the model is dominated by long lines, viewport
  wrapping at \<open>viewport\<close>, whatever \<open>wordWrap\<close> is; else for \<open>'on'\<close> (or \<open>true\<close>) viewport
  wrapping at \<open>viewport\<close>; for \<open>'bounded'\<close> viewport wrapping at the smaller of \<open>viewport\<close> and
  \<open>column\<close>; for \<open>'wordWrapColumn'\<close> fixed wrapping at \<open>column\<close>; for every other value no
  wrapping, with column \<open>-1\<close>.
\<close>

theorem wrapping_resolved_in_priority_order:
  assumes "fst (createInternalEditorOptions ext w h opts f c d n t p shared) = Inr snap"
  shows "(isViewportWrapping (wrappingInfo snap), wrappingColumn (wrappingInfo snap)) =
     (let viewport = Math_max (Fin 1) (viewportColumn (layoutInfo snap));
          column = of_int32 (toInteger ext (opts ''wordWrapColumn'') (Some (Fin 1)) None);
          wordWrap = opts ''wordWrap''
      in if d then (True, viewport)
         else if wordWrap = JSString ''on'' \<or> wordWrap = JSBoolean True then (True, viewport)
         else if wordWrap = JSString ''bounded'' then (True, Math_min viewport column)
         else if wordWrap = JSString ''wordWrapColumn'' then (False, column)
         else (False, Fin (- 1)))"
  unfolding create_wrapping [OF assms] by (simp add: bareWrappingInfo_def Let_def)

theorem wrapping_resolved_in_priority_order_witness:
  "fst (createInternalEditorOptions sample_externals (Fin 1000) (Fin 600) sample_opts
          sample_fontInfo ''monaco-editor'' False (Fin 1) True (Fin 1) TabFocus_initial) =
     Inr (projr (fst (createInternalEditorOptions sample_externals (Fin 1000) (Fin 600) sample_opts
          sample_fontInfo ''monaco-editor'' False (Fin 1) True (Fin 1) TabFocus_initial))) \<and>
   viewportColumn (layoutInfo (projr (fst (createInternalEditorOptions sample_externals (Fin 1000)
          (Fin 600) sample_opts sample_fontInfo ''monaco-editor'' False (Fin 1) True (Fin 1)
          TabFocus_initial)))) = Fin 120 \<and>
   (isViewportWrapping (wrappingInfo (projr (fst (createInternalEditorOptions sample_externals
          (Fin 1000) (Fin 600) sample_opts sample_fontInfo ''monaco-editor'' False (Fin 1) True
          (Fin 1) TabFocus_initial)))),
    wrappingColumn (wrappingInfo (projr (fst (createInternalEditorOptions sample_externals
          (Fin 1000) (Fin 600) sample_opts sample_fontInfo ''monaco-editor'' False (Fin 1) True
          (Fin 1) TabFocus_initial))))) = (True, Fin 80)"
proof -
  define snap where "snap = projr (fst (createInternalEditorOptions sample_externals (Fin 1000)
          (Fin 600) sample_opts sample_fontInfo ''monaco-editor'' False (Fin 1) True (Fin 1)
          TabFocus_initial))"
  have h: "fst (createInternalEditorOptions sample_externals (Fin 1000) (Fin 600) sample_opts
          sample_fontInfo ''monaco-editor'' False (Fin 1) True (Fin 1) TabFocus_initial) = Inr snap"
    unfolding snap_def by code_simp
  have v: "viewportColumn (layoutInfo snap) = Fin 120"
    unfolding snap_def by code_simp
  have k: "toInteger sample_externals (sample_opts ''wordWrapColumn'') (Some (Fin 1)) None = 80"
    by code_simp
  have m: "Math_min (Math_max (Fin 1) (Fin 120)) (of_int32 80) = Fin 80"
    by code_simp
  have o: "sample_opts ''wordWrap'' = JSString ''bounded''"
    by (simp add: sample_opts_def)
  from wrapping_resolved_in_priority_order [OF h]
  have "(isViewportWrapping (wrappingInfo snap), wrappingColumn (wrappingInfo snap)) = (True, Fin 80)"
    by (simp add: v k m o)
  with h v show ?thesis unfolding snap_def by simp
qed

theorem wordWrapColumn_is_raised_to_one:
  "(case fst (createInternalEditorOptions sample_externals (Fin 1000) (Fin 600)
            (sample_opts(''wordWrap'' := JSString ''wordWrapColumn'',
                         ''wordWrapColumn'' := JSNumber (Fin 0)))
            sample_fontInfo ''monaco-editor'' False (Fin 1) True (Fin 1) TabFocus_initial) of
      Inl e \<Rightarrow> False
    | Inr snap \<Rightarrow>
        \<not> isViewportWrapping (wrappingInfo snap) \<and>
        wrappingColumn (wrappingInfo snap) = Fin 1 \<and>
        wrappingColumn (wrappingInfo snap) \<noteq> Fin 0)"
  by code_simp


section \<open>Properties of the snapshot store\<close>

lemma sample_consistent:
  "computeInternalOptions sample_externals sample_surface TabFocus_initial sample_store =
   Inr (editor sample_store)"
  by code_simp

lemma differs_somewhere:
  fixes a b :: "('l, 'f) InternalEditorOptions"
  assumes "a \<noteq> b"
  shows "lineHeight a \<noteq> lineHeight b \<or> readOnly a \<noteq> readOnly b \<or>
         wordSeparators a \<noteq> wordSeparators b \<or> autoClosingBrackets a \<noteq> autoClosingBrackets b \<or>
         useTabStops a \<noteq> useTabStops b \<or> tabFocusMode a \<noteq> tabFocusMode b \<or>
         dragAndDrop a \<noteq> dragAndDrop b \<or> layoutInfo a \<noteq> layoutInfo b \<or>
         fontInfo a \<noteq> fontInfo b \<or> viewInfo a \<noteq> viewInfo b \<or>
         wrappingInfo a \<noteq> wrappingInfo b \<or> contribInfo a \<noteq> contribInfo b"
  using assms by (cases a, cases b) auto

lemma setOptions_result:
  "setOptions new s =
     (if new = editor s then (s, [])
      else (s\<lparr>editor := new, editorClone := clone new\<rparr>,
            map (\<lambda>l. Notify l (createChangeEvent (editor s) new)) (listeners (onDidChange s))))"
  by (auto simp add: setOptions_def equals_def fire_def Let_def comp_def)

lemma recomputeOptions_result:
  "recomputeOptions ext surf shared s =
     (case computeInternalOptions ext surf shared s of
        Inl e \<Rightarrow> (s, [Recompute, Throw e])
      | Inr new \<Rightarrow>
          if new = editor s then (s, [Recompute])
          else (s\<lparr>editor := new, editorClone := clone new\<rparr>,
                Recompute #
                map (\<lambda>l. Notify l (createChangeEvent (editor s) new)) (listeners (onDidChange s))))"
  by (simp add: recomputeOptions_def setOptions_result Let_def split: sum.splits)

lemma change_event_marks_a_group:
  "old \<noteq> new \<Longrightarrow>
     IConfigurationChangedEvent.lineHeight (createChangeEvent old new) \<or>
     IConfigurationChangedEvent.readOnly (createChangeEvent old new) \<or>
     IConfigurationChangedEvent.wordSeparators (createChangeEvent old new) \<or>
     IConfigurationChangedEvent.autoClosingBrackets (createChangeEvent old new) \<or>
     IConfigurationChangedEvent.useTabStops (createChangeEvent old new) \<or>
     IConfigurationChangedEvent.tabFocusMode (createChangeEvent old new) \<or>
     IConfigurationChangedEvent.dragAndDrop (createChangeEvent old new) \<or>
     IConfigurationChangedEvent.layoutInfo (createChangeEvent old new) \<or>
     IConfigurationChangedEvent.fontInfo (createChangeEvent old new) \<or>
     IConfigurationChangedEvent.viewInfo (createChangeEvent old new) \<or>
     IConfigurationChangedEvent.wrappingInfo (createChangeEvent old new) \<or>
     IConfigurationChangedEvent.contribInfo (createChangeEvent old new)"
  using differs_somewhere [of old new] by (simp add: createChangeEvent_def)

text \<open>
  Claim C1, as amended. Every recomputation trigger of the store runs
  \<open>recomputeOptions\<close>, on the store as the trigger has prepared it: \<open>updateOptions\<close> with the
  merged options, \<open>setIsDominatedByLongLines\<close> with the flag, \<open>setMaxLineNumber\<close> with the new
  digit count (when it differs), the zoom and tab-focus subscriptions on the store as it
  is. When the recomputation yields a snapshot, a change event is emitted exactly when
  that snapshot differs from the current one by structural equality. When they are equal
  the stored current snapshot is unchanged (\<open>editor\<close> and \<open>editorClone\<close> keep their values)
  and no event is emitted. When they differ the new snapshot becomes the current one,
  \<open>editorClone\<close> becomes a clone of the new snapshot (the store keeps no handle on the old
  one), and each subscriber is notified once with one change event, which marks a
  top-level group exactly when that group differs, and so marks at least one. When the
  recomputation throws, the snapshot is unchanged and no event is emitted.
\<close>

theorem recomputation_emits_iff_snapshot_differs:
  "(computeInternalOptions ext surf shared s = Inr new \<longrightarrow>
      recomputeOptions ext surf shared s =
        (if new = editor s then (s, [Recompute])
         else (s\<lparr>editor := new, editorClone := clone new\<rparr>,
               Recompute #
               map (\<lambda>l. Notify l (createChangeEvent (editor s) new)) (listeners (onDidChange s)))) \<and>
      (new \<noteq> editor s \<longrightarrow>
         IConfigurationChangedEvent.lineHeight (createChangeEvent (editor s) new) \<or>
         IConfigurationChangedEvent.readOnly (createChangeEvent (editor s) new) \<or>
         IConfigurationChangedEvent.wordSeparators (createChangeEvent (editor s) new) \<or>
         IConfigurationChangedEvent.autoClosingBrackets (createChangeEvent (editor s) new) \<or>
         IConfigurationChangedEvent.useTabStops (createChangeEvent (editor s) new) \<or>
         IConfigurationChangedEvent.tabFocusMode (createChangeEvent (editor s) new) \<or>
         IConfigurationChangedEvent.dragAndDrop (createChangeEvent (editor s) new) \<or>
         IConfigurationChangedEvent.layoutInfo (createChangeEvent (editor s) new) \<or>
         IConfigurationChangedEvent.fontInfo (createChangeEvent (editor s) new) \<or>
         IConfigurationChangedEvent.viewInfo (createChangeEvent (editor s) new) \<or>
         IConfigurationChangedEvent.wrappingInfo (createChangeEvent (editor s) new) \<or>
         IConfigurationChangedEvent.contribInfo (createChangeEvent (editor s) new))) \<and>
   (computeInternalOptions ext surf shared s = Inl e \<longrightarrow>
      recomputeOptions ext surf shared s = (s, [Recompute, Throw e])) \<and>
   updateOptions ext surf shared newOptions s =
     recomputeOptions ext surf shared
       (s\<lparr>configWithDefaults := mergeOptionsIn surf newOptions (configWithDefaults s)\<rparr>) \<and>
   editor (s\<lparr>configWithDefaults := mergeOptionsIn surf newOptions (configWithDefaults s)\<rparr>) = editor s \<and>
   editorClone (s\<lparr>configWithDefaults := mergeOptionsIn surf newOptions (configWithDefaults s)\<rparr>) =
     editorClone s \<and>
   setIsDominatedByLongLines ext surf shared dominated s =
     recomputeOptions ext surf shared (s\<lparr>isDominatedByLongLines := dominated\<rparr>) \<and>
   editor (s\<lparr>isDominatedByLongLines := dominated\<rparr>) = editor s \<and>
   editorClone (s\<lparr>isDominatedByLongLines := dominated\<rparr>) = editorClone s \<and>
   (digitCount n = Some count \<longrightarrow>
      setMaxLineNumber ext surf shared n s =
        Some (if lineNumbersDigitCount s = count then (s, [])
              else recomputeOptions ext surf shared (s\<lparr>lineNumbersDigitCount := count\<rparr>))) \<and>
   editor (s\<lparr>lineNumbersDigitCount := count\<rparr>) = editor s \<and>
   editorClone (s\<lparr>lineNumbersDigitCount := count\<rparr>) = editorClone s \<and>
   IConfigurationChangedEvent.lineHeight (createChangeEvent old new) = (lineHeight old \<noteq> lineHeight new) \<and>
   IConfigurationChangedEvent.readOnly (createChangeEvent old new) = (readOnly old \<noteq> readOnly new) \<and>
   IConfigurationChangedEvent.wordSeparators (createChangeEvent old new) =
     (wordSeparators old \<noteq> wordSeparators new) \<and>
   IConfigurationChangedEvent.autoClosingBrackets (createChangeEvent old new) =
     (autoClosingBrackets old \<noteq> autoClosingBrackets new) \<and>
   IConfigurationChangedEvent.useTabStops (createChangeEvent old new) = (useTabStops old \<noteq> useTabStops new) \<and>
   IConfigurationChangedEvent.tabFocusMode (createChangeEvent old new) =
     (tabFocusMode old \<noteq> tabFocusMode new) \<and>
   IConfigurationChangedEvent.dragAndDrop (createChangeEvent old new) = (dragAndDrop old \<noteq> dragAndDrop new) \<and>
   IConfigurationChangedEvent.layoutInfo (createChangeEvent old new) = (layoutInfo old \<noteq> layoutInfo new) \<and>
   IConfigurationChangedEvent.fontInfo (createChangeEvent old new) = (fontInfo old \<noteq> fontInfo new) \<and>
   IConfigurationChangedEvent.viewInfo (createChangeEvent old new) = (viewInfo old \<noteq> viewInfo new) \<and>
   IConfigurationChangedEvent.wrappingInfo (createChangeEvent old new) =
     (wrappingInfo old \<noteq> wrappingInfo new) \<and>
   IConfigurationChangedEvent.contribInfo (createChangeEvent old new) = (contribInfo old \<noteq> contribInfo new)"
proof -
  have marks: "new \<noteq> editor s \<Longrightarrow>
         IConfigurationChangedEvent.lineHeight (createChangeEvent (editor s) new) \<or>
         IConfigurationChangedEvent.readOnly (createChangeEvent (editor s) new) \<or>
         IConfigurationChangedEvent.wordSeparators (createChangeEvent (editor s) new) \<or>
         IConfigurationChangedEvent.autoClosingBrackets (createChangeEvent (editor s) new) \<or>
         IConfigurationChangedEvent.useTabStops (createChangeEvent (editor s) new) \<or>
         IConfigurationChangedEvent.tabFocusMode (createChangeEvent (editor s) new) \<or>
         IConfigurationChangedEvent.dragAndDrop (createChangeEvent (editor s) new) \<or>
         IConfigurationChangedEvent.layoutInfo (createChangeEvent (editor s) new) \<or>
         IConfigurationChangedEvent.fontInfo (createChangeEvent (editor s) new) \<or>
         IConfigurationChangedEvent.viewInfo (createChangeEvent (editor s) new) \<or>
         IConfigurationChangedEvent.wrappingInfo (createChangeEvent (editor s) new) \<or>
         IConfigurationChangedEvent.contribInfo (createChangeEvent (editor s) new)"
    using change_event_marks_a_group [of "editor s" new] by blast
  have ok: "computeInternalOptions ext surf shared s = Inr new \<Longrightarrow>
      recomputeOptions ext surf shared s =
        (if new = editor s then (s, [Recompute])
         else (s\<lparr>editor := new, editorClone := clone new\<rparr>,
               Recompute #
               map (\<lambda>l. Notify l (createChangeEvent (editor s) new)) (listeners (onDidChange s))))"
    by (simp add: recomputeOptions_result)
  have thrown: "computeInternalOptions ext surf shared s = Inl e \<Longrightarrow>
      recomputeOptions ext surf shared s = (s, [Recompute, Throw e])"
    by (simp add: recomputeOptions_result)
  have line: "digitCount n = Some count \<Longrightarrow>
      setMaxLineNumber ext surf shared n s =
        Some (if lineNumbersDigitCount s = count then (s, [])
              else recomputeOptions ext surf shared (s\<lparr>lineNumbersDigitCount := count\<rparr>))"
    by (simp add: setMaxLineNumber_def)
  from marks ok thrown line show ?thesis
    by (simp add: updateOptions_def setIsDominatedByLongLines_def createChangeEvent_def)
qed

theorem recomputation_emits_iff_snapshot_differs_witness:
  "computeInternalOptions sample_externals sample_surface TabFocus_initial
     (sample_store\<lparr>isDominatedByLongLines := True\<rparr>) = Inr (sample_editor True) \<and>
   sample_editor True \<noteq> editor sample_store \<and>
   setIsDominatedByLongLines sample_externals sample_surface TabFocus_initial True sample_store =
     (sample_store\<lparr>isDominatedByLongLines := True, editor := sample_editor True,
        editorClone := clone (sample_editor True)\<rparr>,
      [Recompute, Notify 7 (createChangeEvent (editor sample_store) (sample_editor True))]) \<and>
   IConfigurationChangedEvent.wrappingInfo (createChangeEvent (editor sample_store) (sample_editor True)) \<and>
   \<not> IConfigurationChangedEvent.viewInfo (createChangeEvent (editor sample_store) (sample_editor True)) \<and>
   digitCount 10 = Some 2 \<and>
   computeInternalOptions sample_externals sample_surface TabFocus_initial
     (sample_store\<lparr>lineNumbersDigitCount := 2\<rparr>) = Inr (editor sample_store) \<and>
   setMaxLineNumber sample_externals sample_surface TabFocus_initial 10 sample_store =
     Some (sample_store\<lparr>lineNumbersDigitCount := 2\<rparr>, [Recompute])"
proof -
  have c1: "computeInternalOptions sample_externals sample_surface TabFocus_initial
     (sample_store\<lparr>isDominatedByLongLines := True\<rparr>) = Inr (sample_editor True)"
    by code_simp
  have c2: "computeInternalOptions sample_externals sample_surface TabFocus_initial
     (sample_store\<lparr>lineNumbersDigitCount := 2\<rparr>) = Inr (editor sample_store)"
    by code_simp
  have differs: "sample_editor True \<noteq> editor sample_store"
    by code_simp
  have count: "digitCount 10 = Some 2" "lineNumbersDigitCount sample_store \<noteq> 2"
    by code_simp+
  have subscribers: "listeners (onDidChange sample_store) = [7]"
    by (simp add: sample_store_def)
  have marks: "IConfigurationChangedEvent.wrappingInfo
                 (createChangeEvent (editor sample_store) (sample_editor True)) \<and>
               \<not> IConfigurationChangedEvent.viewInfo
                 (createChangeEvent (editor sample_store) (sample_editor True))"
    by code_simp
  from recomputation_emits_iff_snapshot_differs
         [where s = "sample_store\<lparr>isDominatedByLongLines := True\<rparr>" and new = "sample_editor True"
            and ext = sample_externals and surf = sample_surface and shared = TabFocus_initial]
       recomputation_emits_iff_snapshot_differs
         [where s = sample_store and dominated = True
            and ext = sample_externals and surf = sample_surface and shared = TabFocus_initial
            and n = 10 and count = 2]
       recomputation_emits_iff_snapshot_differs
         [where s = "sample_store\<lparr>lineNumbersDigitCount := 2\<rparr>" and new = "editor sample_store"
            and ext = sample_externals and surf = sample_surface and shared = TabFocus_initial]
       c1 c2 differs count subscribers marks
  show ?thesis by simp
qed

theorem old_snapshot_is_not_retained:
  "isDominatedByLongLines sample_store = False \<and>
   editorClone sample_store = editor sample_store \<and>
   snd (setIsDominatedByLongLines sample_externals sample_surface TabFocus_initial True sample_store) =
     [Recompute, Notify 7 (createChangeEvent (sample_editor False) (sample_editor True))] \<and>
   editor (fst (setIsDominatedByLongLines sample_externals sample_surface TabFocus_initial True
     sample_store)) = sample_editor True \<and>
   editorClone (fst (setIsDominatedByLongLines sample_externals sample_surface TabFocus_initial True
     sample_store)) = sample_editor True \<and>
   editor (fst (setIsDominatedByLongLines sample_externals sample_surface TabFocus_initial True
     sample_store)) \<noteq> editor sample_store \<and>
   editorClone (fst (setIsDominatedByLongLines sample_externals sample_surface TabFocus_initial True
     sample_store)) \<noteq> editor sample_store"
  by code_simp

subsection \<open>The largest line number\<close>

lemma recomputeOptions_recomputes:
  "Recompute \<in> set (snd (recomputeOptions ext surf shared s))"
  by (simp add: recomputeOptions_def Let_def split: sum.splits)

text \<open>
  Claim C7, as amended. For a line number \<open>n\<close> with \<open>0 \<le> n < 2^53\<close>, the integers that a
  double holds exactly, \<open>setMaxLineNumber(n)\<close> returns, and it runs a recomputation exactly
  when the number of decimal digits of \<open>n\<close> (\<open>floorlog 10 n\<close>,
  that is \<open>\<lfloor>log\<^sub>1\<^sub>0 n\<rfloor> + 1\<close>, and 1 for 0) differs from the stored digit count; when the
  count is the same the call changes nothing and has no effect. From a stored count of 1,
  \<open>setMaxLineNumber(5)\<close> and \<open>setMaxLineNumber(9)\<close> do nothing and \<open>setMaxLineNumber(10)\<close>
  recomputes.
\<close>

theorem setMaxLineNumber_recomputes_iff_digit_count_changes:
  assumes "0 \<le> n" "n < 2 ^ 53"
  shows "digitCount n = Some (if n = 0 then 1 else floorlog 10 (nat n)) \<and>
    setMaxLineNumber ext surf shared n s =
      Some (if lineNumbersDigitCount s = (if n = 0 then 1 else floorlog 10 (nat n)) then (s, [])
            else recomputeOptions ext surf shared
                   (s\<lparr>lineNumbersDigitCount := (if n = 0 then 1 else floorlog 10 (nat n))\<rparr>)) \<and>
    (case setMaxLineNumber ext surf shared n s of
       None \<Rightarrow> False
     | Some r \<Rightarrow>
         (Recompute \<in> set (snd r)) =
           (lineNumbersDigitCount s \<noteq> (if n = 0 then 1 else floorlog 10 (nat n))) \<and>
         (lineNumbersDigitCount s = (if n = 0 then 1 else floorlog 10 (nat n)) \<longrightarrow> r = (s, [])))"
  using digitCount_nonneg [OF assms]
  by (simp add: setMaxLineNumber_def recomputeOptions_recomputes)

theorem setMaxLineNumber_recomputes_iff_digit_count_changes_witness:
  "(0::int) \<le> 5 \<and> (5::int) < 2 ^ 53 \<and> (0::int) \<le> 9 \<and> (9::int) < 2 ^ 53 \<and>
   (0::int) \<le> 10 \<and> (10::int) < 2 ^ 53 \<and>
   lineNumbersDigitCount sample_store = 1 \<and>
   setMaxLineNumber sample_externals sample_surface TabFocus_initial 5 sample_store =
     Some (sample_store, []) \<and>
   setMaxLineNumber sample_externals sample_surface TabFocus_initial 9 sample_store =
     Some (sample_store, []) \<and>
   (case setMaxLineNumber sample_externals sample_surface TabFocus_initial 10 sample_store of
      None \<Rightarrow> False
    | Some r \<Rightarrow> Recompute \<in> set (snd r) \<and> lineNumbersDigitCount (fst r) = 2)"
proof -
  have d: "floorlog 10 (nat 5) = 1" "floorlog 10 (nat 9) = 1" "floorlog 10 (nat 10) = 2"
    by code_simp+
  have c: "lineNumbersDigitCount sample_store = 1"
    by (simp add: sample_store_def)
  have stored: "(case setMaxLineNumber sample_externals sample_surface TabFocus_initial 10 sample_store of
      None \<Rightarrow> False | Some r \<Rightarrow> lineNumbersDigitCount (fst r) = 2)"
    by code_simp
  from setMaxLineNumber_recomputes_iff_digit_count_changes
         [where n = 5 and s = sample_store and ext = sample_externals and surf = sample_surface
            and shared = TabFocus_initial]
       setMaxLineNumber_recomputes_iff_digit_count_changes
         [where n = 9 and s = sample_store and ext = sample_externals and surf = sample_surface
            and shared = TabFocus_initial]
       setMaxLineNumber_recomputes_iff_digit_count_changes
         [where n = 10 and s = sample_store and ext = sample_externals and surf = sample_surface
            and shared = TabFocus_initial]
       d c stored
  show ?thesis by (auto split: option.splits)
qed

text \<open>
  Beyond \<open>2^53\<close> the stored count is the helper's, not the number of digits: with a stored
  count of 23, \<open>setMaxLineNumber(99999999999999991611392)\<close>, a number of 23 digits,
  recomputes and stores 24.
\<close>

theorem setMaxLineNumber_recomputes_on_a_large_double:
  "lineNumbersDigitCount (sample_store\<lparr>lineNumbersDigitCount := 23\<rparr>) = 23 \<and>
   floorlog 10 (nat 99999999999999991611392) = 23 \<and>
   (case setMaxLineNumber sample_externals sample_surface TabFocus_initial 99999999999999991611392
           (sample_store\<lparr>lineNumbersDigitCount := 23\<rparr>) of
      None \<Rightarrow> False
    | Some r \<Rightarrow> Recompute \<in> set (snd r) \<and> lineNumbersDigitCount (fst r) = 24)"
proof -
  have d: "floorlog 10 (nat 99999999999999991611392) = 23"
    by (simp add: compute_floorlog)
  have r: "(case setMaxLineNumber sample_externals sample_surface TabFocus_initial
                  99999999999999991611392 (sample_store\<lparr>lineNumbersDigitCount := 23\<rparr>) of
      None \<Rightarrow> False
    | Some r \<Rightarrow> Recompute \<in> set (snd r) \<and> lineNumbersDigitCount (fst r) = 24)"
    by code_simp
  from d r show ?thesis by simp
qed

end
